theory Spec2Isabelle
  imports Main
begin

section \<open>Strings\<close>

text \<open>
  Python's \<open>str(i)\<close> and \<open>f"{i}"\<close> on an integer: the decimal digits, with a leading
  minus sign for a negative number.
\<close>

definition digit_char :: "nat \<Rightarrow> char" where
  "digit_char d = ''0123456789'' ! d"

fun str_nat :: "nat \<Rightarrow> string" where
  "str_nat n = (if n < 10 then [digit_char n] else str_nat (n div 10) @ [digit_char (n mod 10)])"

declare str_nat.simps [simp del]

definition str_int :: "int \<Rightarrow> string" where
  "str_int i = (if i < 0 then CHR ''-'' # str_nat (nat (- i)) else str_nat (nat i))"

text \<open>Python's \<open>needle in haystack\<close> on strings: a contiguous occurrence.\<close>

fun starts_with :: "string \<Rightarrow> string \<Rightarrow> bool" where
  "starts_with [] s = True"
| "starts_with (p # ps) [] = False"
| "starts_with (p # ps) (c # cs) = (p = c \<and> starts_with ps cs)"

fun contains :: "string \<Rightarrow> string \<Rightarrow> bool" where
  "contains needle [] = (needle = [])"
| "contains needle (c # cs) = (starts_with needle (c # cs) \<or> contains needle cs)"

text \<open>\<open>str.lower()\<close> on the ASCII range: the letters A to Z move to a to z.\<close>

definition lower_char :: "char \<Rightarrow> char" where
  "lower_char c =
     (case map_of (zip ''ABCDEFGHIJKLMNOPQRSTUVWXYZ'' ''abcdefghijklmnopqrstuvwxyz'') c of
        None \<Rightarrow> c
      | Some l \<Rightarrow> l)"

definition lower :: "string \<Rightarrow> string" where
  "lower s = map lower_char s"

section \<open>Transport\<close>

text \<open>
  What \<open>requests.post\<close> can do: time out, fail with another \<open>RequestException\<close>, or
  deliver a response with a status code and a body. The body is \<open>None\<close> when
  \<open>response.json()\<close> raises, and otherwise a JSON object of which the code reads two
  keys: \<open>errors\<close> (a list of error objects, each with an optional \<open>message\<close>) and
  \<open>data\<close>. A key that is absent is \<open>None\<close> here.
\<close>

datatype 'd body = Body (errors: "string option list option") (data: "'d option")

datatype 'd reply = Timeout | RequestFailed | Response nat "'d body option"

text \<open>An exception that the code does not catch where it is raised, with its \<open>str(e)\<close>.\<close>

datatype exn = Raised string

definition IndexError :: exn where
  "IndexError = Raised ''list index out of range''"

definition str_exn :: "exn \<Rightarrow> string" where
  "str_exn e = (case e of Raised m \<Rightarrow> m)"

text \<open>\<open>response.raise_for_status()\<close> raises \<open>HTTPError\<close> on a 4xx or 5xx status.\<close>

definition raises_for_status :: "nat \<Rightarrow> bool" where
  "raises_for_status status = (400 \<le> status \<and> status < 600)"

text \<open>
  \<open>make_graphql_request\<close> of \<open>test_tournaments_fresh.py\<close> and
  \<open>stress_test_coordinator.py\<close> (the two differ in the timeout only). Every failure
  of the transport and every error the service reports becomes the same \<open>None\<close>; the one
  exception that escapes is the \<open>IndexError\<close> of \<open>data['errors'][0]\<close> on an empty list.
\<close>

definition make_graphql_request :: "bool \<Rightarrow> 'd reply \<Rightarrow> exn + 'd body option" where
  "make_graphql_request show_error r =
     (case r of
        Timeout \<Rightarrow> Inr None
      | RequestFailed \<Rightarrow> Inr None
      | Response status b \<Rightarrow>
          (case (if show_error then (case b of None \<Rightarrow> None | Some bd \<Rightarrow> errors bd) else None) of
             Some [] \<Rightarrow> Inl IndexError
           | Some (e # es) \<Rightarrow> Inr None
           | None \<Rightarrow> if raises_for_status status then Inr None else Inr b))"

text \<open>
  Every caller tests \<open>result and "data" in result\<close> and then reads \<open>result["data"]\<close>:
  \<open>payload\<close> is that value, \<open>None\<close> when the test fails.
\<close>

definition payload :: "'d body option \<Rightarrow> 'd option" where
  "payload result = (case result of None \<Rightarrow> None | Some b \<Rightarrow> data b)"

text \<open>
  The requests the scripts send, with the values they interpolate into the operation
  text. The first field is the endpoint.
\<close>

definition endpoint :: "string \<Rightarrow> string \<Rightarrow> string \<Rightarrow> string" where
  "endpoint base_url chain_id app_id = base_url @ ''/chains/'' @ chain_id @ ''/applications/'' @ app_id"

datatype request =
    RegisterPlayer string string string
  | LeaderboardCreate string string string string int string string
  | NewBoard string string string string string
  | BoardsQuery string
  | MakeMoves string string string string string
  | LeaderboardsQuery string
  | StateQuery string string
  | UpdateActiveTournaments string

section \<open>What the queries return\<close>

text \<open>
  The objects of the \<open>leaderboards\<close> and \<open>boards\<close> queries, with the fields of the wire
  contract. An identifier that is \<open>null\<close> or empty is the empty string: the code only
  tests it for truth.
\<close>

record leaderboard =
  leaderboardId :: string
  lb_name :: string
  lb_host :: string
  lb_chainId :: string
  totalBoards :: int
  totalPlayers :: int
  shardIds :: "string list"

record board =
  boardId :: string
  b_player :: string
  b_leaderboardId :: string

record player =
  p_username :: string
  p_chainId :: string

text \<open>The \<open>data\<close> of a query: a top-level field is \<open>None\<close> when its key is absent.\<close>

record qdata =
  q_leaderboards :: "leaderboard list option"
  q_player :: "player option"
  q_boards :: "board list option"

section \<open>The stress test coordinator\<close>

record tournament_config =
  cfg_name :: string
  cfg_start_time :: int
  cfg_end_time :: int
  cfg_shard_number :: int
  cfg_description :: string

text \<open>
  The list comprehension over \<open>range(num_tournaments)\<close>, which is empty for a count
  that is not positive.
\<close>

definition tournament_configs :: "int \<Rightarrow> int \<Rightarrow> tournament_config list" where
  "tournament_configs num_tournaments shard_count =
     map (\<lambda>i. \<lparr>cfg_name = str_int (int i), cfg_start_time = 0, cfg_end_time = 0,
               cfg_shard_number = shard_count, cfg_description = ''Tournament '' @ str_int (int i)\<rparr>)
         [0..<nat num_tournaments]"

record created_tournament =
  ct_name :: string
  ct_host :: string
  ct_shard_count :: int
  ct_description :: string
  ct_creation_result :: "string option"

record tournament_details =
  td_id :: string
  td_name :: string
  td_chainId :: string
  td_shardIds :: "string list"
  td_shardCount :: nat
  td_totalBoards :: int

text \<open>
  The coordinator's state: its addresses and credentials, the tournaments recorded so
  far, the tournaments of the exported configuration, and the requests sent so far, in
  order.
\<close>

record coordinator =
  base_url :: string
  main_chain_id :: string
  app_id :: string
  main_url :: string
  coordinator_username :: string
  coordinator_password :: string
  created_tournaments :: "created_tournament list"
  config_tournaments :: "tournament_details list"
  sent :: "request list"

text \<open>The constructor; \<open>suffix\<close> is the random string it draws.\<close>

definition new_coordinator :: "string \<Rightarrow> string \<Rightarrow> string \<Rightarrow> string \<Rightarrow> coordinator" where
  "new_coordinator chain app url suffix =
     \<lparr>base_url = url, main_chain_id = chain, app_id = app, main_url = endpoint url chain app,
      coordinator_username = ''coord_'' @ suffix, coordinator_password = ''pass_'' @ suffix,
      created_tournaments = [], config_tournaments = [], sent = []\<rparr>"

definition register_coordinator :: "string option reply \<Rightarrow> coordinator \<Rightarrow> (exn + bool) \<times> coordinator" where
  "register_coordinator r c =
     (let c1 = c\<lparr>sent := sent c @ [RegisterPlayer (main_url c) (coordinator_username c) (coordinator_password c)]\<rparr> in
      case make_graphql_request True r of
        Inl e \<Rightarrow> (Inl e, c1)
      | Inr result \<Rightarrow> (Inr (payload result \<noteq> None), c1))"

definition create_request :: "coordinator \<Rightarrow> tournament_config \<Rightarrow> request" where
  "create_request c cfg =
     LeaderboardCreate (main_url c) (cfg_name cfg) (str_int (cfg_start_time cfg))
       (str_int (cfg_end_time cfg)) (cfg_shard_number cfg)
       (coordinator_username c) (coordinator_password c)"

text \<open>
  The loop of \<open>create_stress_test_tournaments\<close>. The reply to the \<open>i\<close>-th creation is
  \<open>net i\<close>; the value of a reply is what the code reads as the creation result (the
  field \<open>leaderboardAction\<close> of \<open>data\<close>, or \<open>data\<close> itself when it is no object).
\<close>

fun create_loop ::
  "tournament_config list \<Rightarrow> (nat \<Rightarrow> string option reply) \<Rightarrow> nat \<Rightarrow> coordinator \<Rightarrow> (exn + bool) \<times> coordinator"
where
  "create_loop [] net i c = (Inr True, c)"
| "create_loop (cfg # cfgs) net i c =
     (let c1 = c\<lparr>sent := sent c @ [create_request c cfg]\<rparr> in
      case make_graphql_request True (net i) of
        Inl e \<Rightarrow> (Inl e, c1)
      | Inr result \<Rightarrow>
          (case payload result of
             Some tournament_result \<Rightarrow>
               create_loop cfgs net (Suc i)
                 (c1\<lparr>created_tournaments := created_tournaments c1 @
                       [\<lparr>ct_name = cfg_name cfg, ct_host = coordinator_username c1,
                         ct_shard_count = cfg_shard_number cfg,
                         ct_description = cfg_description cfg,
                         ct_creation_result = tournament_result\<rparr>]\<rparr>)
           | None \<Rightarrow> (Inr False, c1)))"

definition create_stress_test_tournaments ::
  "int \<Rightarrow> int \<Rightarrow> (nat \<Rightarrow> string option reply) \<Rightarrow> coordinator \<Rightarrow> (exn + bool) \<times> coordinator"
where
  "create_stress_test_tournaments num_tournaments shard_count net c =
     create_loop (tournament_configs num_tournaments shard_count) net 0 c"

text \<open>
  The two ways a creation of the coordinator can end without an exception: the loop goes
  on when the request returned data, and returns False when it did not.
\<close>

definition request_has_data :: "string option reply \<Rightarrow> bool" where
  "request_has_data r =
     (case make_graphql_request True r of Inl e \<Rightarrow> False | Inr result \<Rightarrow> payload result \<noteq> None)"

definition request_without_data :: "string option reply \<Rightarrow> bool" where
  "request_without_data r =
     (case make_graphql_request True r of Inl e \<Rightarrow> False | Inr result \<Rightarrow> payload result = None)"

definition details_of :: "leaderboard \<Rightarrow> tournament_details" where
  "details_of lb =
     \<lparr>td_id = leaderboardId lb, td_name = lb_name lb, td_chainId = lb_chainId lb,
      td_shardIds = shardIds lb, td_shardCount = length (shardIds lb),
      td_totalBoards = totalBoards lb\<rparr>"

definition query_tournament_details :: "qdata reply \<Rightarrow> coordinator \<Rightarrow> (exn + bool) \<times> coordinator" where
  "query_tournament_details r c =
     (let c1 = c\<lparr>sent := sent c @ [LeaderboardsQuery (main_url c)]\<rparr> in
      case make_graphql_request True r of
        Inl e \<Rightarrow> (Inl e, c1)
      | Inr result \<Rightarrow>
          (case payload result of
             None \<Rightarrow> (Inr False, c1)
           | Some d \<Rightarrow>
               (case q_leaderboards d of
                  None \<Rightarrow> (Inr False, c1)
                | Some lbs \<Rightarrow>
                    (let leaderboards =
                           filter (\<lambda>lb. leaderboardId lb \<noteq> [] \<and> lb_host lb = coordinator_username c1) lbs
                     in if leaderboards \<noteq> []
                        then (Inr True, c1\<lparr>config_tournaments := map details_of leaderboards\<rparr>)
                        else (Inr False, c1)))))"

text \<open>
  The loop of \<open>verify_tournament_accessibility\<close>: one query per exported tournament,
  sent with \<open>show_error=False\<close>, so that no exception escapes.
\<close>

fun accessibility_loop ::
  "tournament_details list \<Rightarrow> (nat \<Rightarrow> qdata reply) \<Rightarrow> nat \<Rightarrow> bool \<Rightarrow> coordinator \<Rightarrow> (exn + bool) \<times> coordinator"
where
  "accessibility_loop [] net i all_accessible c = (Inr all_accessible, c)"
| "accessibility_loop (t # ts) net i all_accessible c =
     (let c1 = c\<lparr>sent := sent c @ [LeaderboardsQuery (endpoint (base_url c) (td_chainId t) (app_id c))]\<rparr> in
      case make_graphql_request False (net i) of
        Inl e \<Rightarrow> (Inl e, c1)
      | Inr result \<Rightarrow>
          accessibility_loop ts net (Suc i) (all_accessible \<and> payload result \<noteq> None) c1)"

definition verify_tournament_accessibility :: "(nat \<Rightarrow> qdata reply) \<Rightarrow> coordinator \<Rightarrow> (exn + bool) \<times> coordinator" where
  "verify_tournament_accessibility net c =
     (if config_tournaments c = [] then (Inr False, c)
      else accessibility_loop (config_tournaments c) net 0 True c)"

text \<open>
  Everything \<open>run_coordinator_setup\<close> receives from outside: the replies to its
  requests, and whether writing the configuration file succeeds.
\<close>

record coordinator_net =
  reg_reply :: "string option reply"
  create_replies :: "nat \<Rightarrow> string option reply"
  details_reply :: "qdata reply"
  save_ok :: bool
  access_replies :: "nat \<Rightarrow> qdata reply"

definition run_coordinator_setup ::
  "int \<Rightarrow> int \<Rightarrow> coordinator_net \<Rightarrow> coordinator \<Rightarrow> (exn + bool) \<times> coordinator"
where
  "run_coordinator_setup num_tournaments shard_count net c =
     (case register_coordinator (reg_reply net) c of
        (Inl e, c1) \<Rightarrow> (Inl e, c1)
      | (Inr False, c1) \<Rightarrow> (Inr False, c1)
      | (Inr True, c1) \<Rightarrow>
     (case create_stress_test_tournaments num_tournaments shard_count (create_replies net) c1 of
        (Inl e, c2) \<Rightarrow> (Inl e, c2)
      | (Inr False, c2) \<Rightarrow> (Inr False, c2)
      | (Inr True, c2) \<Rightarrow>
     (case query_tournament_details (details_reply net) c2 of
        (Inl e, c3) \<Rightarrow> (Inl e, c3)
      | (Inr False, c3) \<Rightarrow> (Inr False, c3)
      | (Inr True, c3) \<Rightarrow>
     (if \<not> save_ok net then (Inr False, c3)
      else
     (case verify_tournament_accessibility (access_replies net) c3 of
        (Inl e, c4) \<Rightarrow> (Inl e, c4)
      | (Inr accessible, c4) \<Rightarrow> (Inr True, c4))))))"

text \<open>
  \<open>main\<close> after argument parsing: the exit code and the requests that were sent. An
  exception that nothing catches ends the process with exit code 1.
\<close>

definition main ::
  "string \<Rightarrow> string \<Rightarrow> int \<Rightarrow> int \<Rightarrow> string \<Rightarrow> string \<Rightarrow> coordinator_net \<Rightarrow> nat \<times> request list"
where
  "main chain app tournaments shards url suffix net =
     (if tournaments < 1 \<or> tournaments > 10 then (1, [])
      else if shards < 1 \<or> shards > 32 then (1, [])
      else (case run_coordinator_setup tournaments shards net (new_coordinator chain app url suffix) of
              (Inr True, c) \<Rightarrow> (0, sent c)
            | (Inr False, c) \<Rightarrow> (1, sent c)
            | (Inl e, c) \<Rightarrow> (1, sent c)))"

section \<open>The tournament tester of \<open>test_tournaments_fresh.py\<close>\<close>

text \<open>
  The tester's state: addresses and credentials, the player's chain once a state query
  has found it, the identifiers that \<open>create_multiple_tournaments\<close> keeps from the
  creation mutations, and the requests sent so far, in order.
\<close>

record tester =
  t_base_url :: string
  t_app_id :: string
  t_main_url :: string
  username :: string
  password :: string
  player_chain_id :: "string option"
  tournaments :: "string list"
  t_sent :: "request list"

definition new_tester :: "string \<Rightarrow> string \<Rightarrow> string \<Rightarrow> string \<Rightarrow> tester" where
  "new_tester chain app url suffix =
     \<lparr>t_base_url = url, t_app_id = app, t_main_url = endpoint url chain app,
      username = ''test_'' @ suffix, password = ''pass_'' @ suffix,
      player_chain_id = None, tournaments = [], t_sent = []\<rparr>"

text \<open>Python's truth of an optional string: \<open>None\<close> and the empty string are false.\<close>

definition truthy :: "string option \<Rightarrow> bool" where
  "truthy v = (case v of None \<Rightarrow> False | Some s \<Rightarrow> s \<noteq> [])"

definition player_url :: "tester \<Rightarrow> string" where
  "player_url t = endpoint (t_base_url t) (case player_chain_id t of None \<Rightarrow> [] | Some c \<Rightarrow> c) (t_app_id t)"

text \<open>
  \<open>query_state\<close> returns the data only when it holds a non-empty list of leaderboards;
  otherwise it returns \<open>{}\<close> or falls off its end, and both are false for every caller,
  so both are \<open>None\<close> here.
\<close>

definition query_state :: "qdata reply \<Rightarrow> tester \<Rightarrow> (exn + qdata option) \<times> tester" where
  "query_state r t =
     (let t1 = t\<lparr>t_sent := t_sent t @ [StateQuery (t_main_url t) (username t)]\<rparr> in
      case make_graphql_request True r of
        Inl e \<Rightarrow> (Inl e, t1)
      | Inr result \<Rightarrow>
          (case payload result of
             None \<Rightarrow> (Inr None, t1)
           | Some d \<Rightarrow>
               (let t2 = (case q_player d of
                            None \<Rightarrow> t1
                          | Some p \<Rightarrow> t1\<lparr>player_chain_id := Some (p_chainId p)\<rparr>)
                in case q_leaderboards d of
                     None \<Rightarrow> (Inr None, t2)
                   | Some [] \<Rightarrow> (Inr None, t2)
                   | Some (lb # lbs) \<Rightarrow> (Inr (Some d), t2))))"

text \<open>
  The two list comprehensions that every matching starts with: the leaderboards with an
  identifier, and of those the ones hosted by this run's player.
\<close>

definition my_tournaments :: "string \<Rightarrow> leaderboard list \<Rightarrow> leaderboard list" where
  "my_tournaments user lbs =
     filter (\<lambda>lb. lb_host lb = user) (filter (\<lambda>lb. leaderboardId lb \<noteq> []) lbs)"

definition get_tournament_id_by_name :: "string \<Rightarrow> qdata reply \<Rightarrow> tester \<Rightarrow> (exn + string option) \<times> tester" where
  "get_tournament_id_by_name tournament_name r t =
     (case query_state r t of
        (Inl e, t1) \<Rightarrow> (Inl e, t1)
      | (Inr None, t1) \<Rightarrow> (Inr None, t1)
      | (Inr (Some state), t1) \<Rightarrow>
          (case q_leaderboards state of
             None \<Rightarrow> (Inr None, t1)
           | Some lbs \<Rightarrow>
               (case find (\<lambda>tournament. lb_name tournament = tournament_name) (my_tournaments (username t1) lbs) of
                  None \<Rightarrow> (Inr None, t1)
                | Some tournament \<Rightarrow> (Inr (Some (leaderboardId tournament)), t1))))"

subsection \<open>Creating the scenarios\<close>

text \<open>
  \<open>create_tournament_with_time\<close> sends one creation and returns what the reply holds as
  the mutation's value, \<open>None\<close> when the request gave no data.
\<close>

definition creation_request :: "tester \<Rightarrow> string \<Rightarrow> int \<Rightarrow> int \<Rightarrow> request" where
  "creation_request t name start_time end_time =
     LeaderboardCreate (t_main_url t) name (str_int start_time) (str_int end_time) 2
       (username t) (password t)"

definition mutation_value :: "string option reply \<Rightarrow> exn + string option" where
  "mutation_value r =
     (case make_graphql_request True r of
        Inl e \<Rightarrow> Inl e
      | Inr result \<Rightarrow>
          (case payload result of
             None \<Rightarrow> Inr None
           | Some tournament_id \<Rightarrow> Inr tournament_id))"

definition create_tournament_with_time ::
  "string \<Rightarrow> int \<Rightarrow> int \<Rightarrow> string option reply \<Rightarrow> tester \<Rightarrow> (exn + string option) \<times> tester"
where
  "create_tournament_with_time name start_time end_time r t =
     (mutation_value r, t\<lparr>t_sent := t_sent t @ [creation_request t name start_time end_time]\<rparr>)"

text \<open>The scenario tuples: name, start, end, and the flag \<open>should_be_active\<close>.\<close>

definition tournament_scenarios :: "int \<Rightarrow> (string \<times> int \<times> int \<times> bool) list" where
  "tournament_scenarios current_time =
     [(''past_tournament'', current_time - 3600000000, current_time - 1800000000, False),
      (''future_tournament'', current_time + 3600000000, current_time + 7200000000, False),
      (''active_tournament'', 0, 0, True),
      (''eternal_tournament'', 0, 0, True)]"

text \<open>
  What is kept of a created tournament. The result of the creation mutation is not
  among the fields.
\<close>

record scenario =
  sc_name :: string
  sc_start_time :: int
  sc_end_time :: int
  should_be_active :: bool
  sc_host :: string

fun create_scenarios_loop ::
  "(string \<times> int \<times> int \<times> bool) list \<Rightarrow> (nat \<Rightarrow> string option reply) \<Rightarrow> nat \<Rightarrow> scenario list \<Rightarrow> tester
     \<Rightarrow> (exn + scenario list option) \<times> tester"
where
  "create_scenarios_loop [] net i created t = (Inr (Some created), t)"
| "create_scenarios_loop ((name, start_time, end_time, active) # rest) net i created t =
     (case create_tournament_with_time name start_time end_time (net i) t of
        (Inl e, t1) \<Rightarrow> (Inl e, t1)
      | (Inr mutation_result, t1) \<Rightarrow>
          if truthy mutation_result
          then create_scenarios_loop rest net (Suc i)
                 (created @ [\<lparr>sc_name = name, sc_start_time = start_time, sc_end_time = end_time,
                               should_be_active = active, sc_host = username t1\<rparr>]) t1
          else (Inr None, t1))"

text \<open>
  The two ways a creation can end without an exception: the loop goes on after a value
  that is true, and returns \<open>None\<close> after any other.
\<close>

definition created_ok :: "string option reply \<Rightarrow> bool" where
  "created_ok r = (case mutation_value r of Inl e \<Rightarrow> False | Inr v \<Rightarrow> truthy v)"

definition creation_refused :: "string option reply \<Rightarrow> bool" where
  "creation_refused r = (case mutation_value r of Inl e \<Rightarrow> False | Inr v \<Rightarrow> \<not> truthy v)"

text \<open>
  What the loop sends and what it keeps for one scenario tuple, for the statements below.
\<close>

definition request_of :: "tester \<Rightarrow> (string \<times> int \<times> int \<times> bool) \<Rightarrow> request" where
  "request_of t sc = (case sc of (name, start_time, end_time, active) \<Rightarrow> creation_request t name start_time end_time)"

definition scenario_of :: "string \<Rightarrow> (string \<times> int \<times> int \<times> bool) \<Rightarrow> scenario" where
  "scenario_of user sc =
     (case sc of (name, start_time, end_time, active) \<Rightarrow>
        \<lparr>sc_name = name, sc_start_time = start_time, sc_end_time = end_time,
         should_be_active = active, sc_host = user\<rparr>)"

text \<open>\<open>current_time\<close> is the clock reading the function takes when it starts.\<close>

definition create_multiple_test_tournaments ::
  "int \<Rightarrow> (nat \<Rightarrow> string option reply) \<Rightarrow> tester \<Rightarrow> (exn + scenario list option) \<times> tester"
where
  "create_multiple_test_tournaments current_time net t =
     create_scenarios_loop (tournament_scenarios current_time) net 0 [] t"

text \<open>
  Modelled from the spec: the activation-window policy of the service under test, which
  no source file computes. A tournament is active iff
  \<open>(start == 0 OR now >= start) AND (end == 0 OR now <= end)\<close>.
\<close>

definition spec_active :: "int \<Rightarrow> int \<Rightarrow> int \<Rightarrow> bool" where
  "spec_active start_time end_time now =
     ((start_time = 0 \<or> now \<ge> start_time) \<and> (end_time = 0 \<or> now \<le> end_time))"

subsection \<open>Verifying visibility\<close>

text \<open>
  The per-scenario check of \<open>verify_active_tournaments\<close>: the first of the player's
  tournaments with the scenario's name and the player as host.
\<close>

definition matching_tournament :: "string \<Rightarrow> string \<Rightarrow> leaderboard list \<Rightarrow> leaderboard option" where
  "matching_tournament user name lbs =
     find (\<lambda>t. lb_name t = name \<and> lb_host t = user) (my_tournaments user lbs)"

definition actual_count :: "string \<Rightarrow> scenario list \<Rightarrow> leaderboard list \<Rightarrow> nat" where
  "actual_count user created lbs =
     length (filter (\<lambda>t. lb_name t \<in> set (map sc_name created)) (my_tournaments user lbs))"

text \<open>
  \<open>verify_active_tournaments\<close>. Between its two state queries the source tries to
  create a board in the eternal tournament, but reads the key \<open>id\<close>, which no created
  scenario has: the \<open>KeyError\<close> is caught on the spot and no request is sent. The result
  holds, next to the verdict, the line reported for each scenario: its name, whether it is
  visible, and the flag it was created with.
\<close>

definition verify_active_tournaments ::
  "nat \<Rightarrow> scenario list \<Rightarrow> qdata reply \<Rightarrow> qdata reply \<Rightarrow> tester
     \<Rightarrow> (exn + bool \<times> (string \<times> bool \<times> bool) list) \<times> tester"
where
  "verify_active_tournaments expected_active_count created r1 r2 t =
     (case query_state r1 t of
        (Inl e, t1) \<Rightarrow> (Inl e, t1)
      | (Inr state1, t1) \<Rightarrow>
     (case query_state r2 t1 of
        (Inl e, t2) \<Rightarrow> (Inl e, t2)
      | (Inr None, t2) \<Rightarrow> (Inr (False, []), t2)
      | (Inr (Some state), t2) \<Rightarrow>
          (case q_leaderboards state of
             None \<Rightarrow> (Inr (False, []), t2)
           | Some lbs \<Rightarrow>
               (Inr (actual_count (username t2) created lbs = expected_active_count,
                     map (\<lambda>tournament.
                            (sc_name tournament,
                             matching_tournament (username t2) (sc_name tournament) lbs \<noteq> None,
                             should_be_active tournament)) created),
                t2))))"

subsection \<open>Boards\<close>

text \<open>
  \<open>create_board\<close>: the mutation, and when the mutation returned data, a query for the
  boards, of which the first with this player and this tournament gives the result.
\<close>

definition create_board ::
  "string \<Rightarrow> string \<Rightarrow> string option reply \<Rightarrow> qdata reply \<Rightarrow> tester \<Rightarrow> (exn + string option) \<times> tester"
where
  "create_board tournament_id timestamp r boards_r t =
     (if \<not> truthy (player_chain_id t) then (Inr None, t)
      else
        (let t1 = t\<lparr>t_sent := t_sent t @
                     [NewBoard (player_url t) (username t) (password t) timestamp tournament_id]\<rparr> in
         case make_graphql_request True r of
           Inl e \<Rightarrow> (Inl e, t1)
         | Inr result \<Rightarrow>
             (case payload result of
                None \<Rightarrow> (Inr None, t1)
              | Some submitted \<Rightarrow>
                  (let t2 = t1\<lparr>t_sent := t_sent t1 @ [BoardsQuery (player_url t1)]\<rparr> in
                   case make_graphql_request True boards_r of
                     Inl e \<Rightarrow> (Inl e, t2)
                   | Inr boards_result \<Rightarrow>
                       (case payload boards_result of
                          None \<Rightarrow> (Inr None, t2)
                        | Some d \<Rightarrow>
                            (case q_boards d of
                               None \<Rightarrow> (Inr None, t2)
                             | Some boards \<Rightarrow>
                                 (case find (\<lambda>b. b_player b = username t2 \<and> b_leaderboardId b = tournament_id) boards of
                                    None \<Rightarrow> (Inr None, t2)
                                  | Some b \<Rightarrow> (Inr (Some (boardId b)), t2))))))))"

subsection \<open>Board creation against the expired and the active tournament\<close>

text \<open>
  The branches of the two \<open>try\<close> blocks of \<open>test_board_creation_validation\<close>, named
  after what each reports. Only \<open>ExpiredCorrectlyRejected\<close>, \<open>ActiveBoardCreated\<close> and
  \<open>ActiveCacheSyncRejected\<close> add to \<open>success_count\<close>.
\<close>

datatype expired_outcome =
  ExpiredBoardCreated | ExpiredReturnedNone | ExpiredCorrectlyRejected | ExpiredUnexpectedError

datatype active_outcome =
  ActiveBoardCreated | ActiveFailedUnexpectedly | ActiveCacheSyncRejected | ActiveFailedWithError

definition expired_attempt :: "exn + string option \<Rightarrow> expired_outcome" where
  "expired_attempt attempt =
     (case attempt of
        Inr board_id \<Rightarrow> if truthy board_id then ExpiredBoardCreated else ExpiredReturnedNone
      | Inl e \<Rightarrow>
          (let error_msg = lower (str_exn e) in
           if (contains ''http error 500'' error_msg \<and> contains ''runtime error'' error_msg)
              \<or> contains ''expired'' error_msg \<or> contains ''not active'' error_msg
              \<or> contains ''not found in cache'' error_msg
           then ExpiredCorrectlyRejected else ExpiredUnexpectedError))"

definition active_attempt :: "exn + string option \<Rightarrow> active_outcome" where
  "active_attempt attempt =
     (case attempt of
        Inr board_id \<Rightarrow> if truthy board_id then ActiveBoardCreated else ActiveFailedUnexpectedly
      | Inl e \<Rightarrow>
          (let error_msg = lower (str_exn e) in
           if contains ''http error 500'' error_msg \<and> contains ''runtime error'' error_msg
           then ActiveCacheSyncRejected else ActiveFailedWithError))"

record validation_net =
  past_lookup :: "qdata reply"
  active_lookup :: "qdata reply"
  past_new_board :: "string option reply"
  past_boards :: "qdata reply"
  active_new_board :: "string option reply"
  active_boards :: "qdata reply"

text \<open>
  \<open>test_board_creation_validation\<close>: the verdict, and the outcome of each of the two
  attempts (\<open>None\<close> for an attempt that was skipped because the tournament was not found).
\<close>

definition test_board_creation_validation ::
  "validation_net \<Rightarrow> tester \<Rightarrow> (exn + bool \<times> expired_outcome option \<times> active_outcome option) \<times> tester"
where
  "test_board_creation_validation net t =
     (case get_tournament_id_by_name ''past_tournament'' (past_lookup net) t of
        (Inl e, t1) \<Rightarrow> (Inl e, t1)
      | (Inr past_tournament_id, t1) \<Rightarrow>
     (case get_tournament_id_by_name ''active_tournament'' (active_lookup net) t1 of
        (Inl e, t2) \<Rightarrow> (Inl e, t2)
      | (Inr active_tournament_id, t2) \<Rightarrow>
          (let (past, t3) =
                 (case past_tournament_id of
                    None \<Rightarrow> (None, t2)
                  | Some past_id \<Rightarrow>
                      if past_id = [] then (None, t2)
                      else (case create_board past_id ''10000000'' (past_new_board net) (past_boards net) t2 of
                              (attempt, t') \<Rightarrow> (Some (expired_attempt attempt), t')));
               (active, t4) =
                 (case active_tournament_id of
                    None \<Rightarrow> (None, t3)
                  | Some active_id \<Rightarrow>
                      if active_id = [] then (None, t3)
                      else (case create_board active_id ''10000000'' (active_new_board net) (active_boards net) t3 of
                              (attempt, t') \<Rightarrow> (Some (active_attempt attempt), t')));
               total_tests = (if past = None then 0 else 1) + (if active = None then 0 else (1::nat));
               success_count = (if past = Some ExpiredCorrectlyRejected then 1 else 0)
                             + (if active = Some ActiveBoardCreated \<or> active = Some ActiveCacheSyncRejected
                                then 1 else (0::nat))
           in (Inr (if total_tests > 0 then success_count = total_tests else True, past, active), t4))))"

text \<open>
  Modelled from the spec: the two failure kinds of section 4.1 that the claims about
  rejection speak of. A service rejection is a response whose body carries a non-empty
  \<open>errors\<close> list; a transport failure is a timeout, a connection failure, or an HTTP
  error status on a response without such a list.
\<close>

fun service_rejection :: "'d reply \<Rightarrow> bool" where
  "service_rejection (Response status (Some (Body (Some (e # es)) d))) = True"
| "service_rejection r = False"

fun transport_failure :: "'d reply \<Rightarrow> bool" where
  "transport_failure Timeout = True"
| "transport_failure RequestFailed = True"
| "transport_failure (Response status None) = raises_for_status status"
| "transport_failure (Response status (Some (Body None d))) = raises_for_status status"
| "transport_failure (Response status (Some (Body (Some es) d))) = False"

subsection \<open>Moves\<close>








subsection \<open>The final check of the board counts\<close>

text \<open>
  \<open>query_leaderboard_chain\<close> sends one query to the leaderboard's chain and picks from
  the reply the leaderboard with the given identifier, else the only one of the chain,
  else the first that has a name or a host. \<open>chain_entry\<close> is that choice.
\<close>

definition chain_entry :: "string \<Rightarrow> qdata reply \<Rightarrow> exn + leaderboard option" where
  "chain_entry leaderboard_id r =
     (case make_graphql_request True r of
        Inl e \<Rightarrow> Inl e
      | Inr result \<Rightarrow>
          (case payload result of
             None \<Rightarrow> Inr None
           | Some d \<Rightarrow>
               (case q_leaderboards d of
                  None \<Rightarrow> Inr None
                | Some leaderboards \<Rightarrow>
                    (case find (\<lambda>lb. leaderboardId lb = leaderboard_id) leaderboards of
                       Some lb \<Rightarrow> Inr (Some lb)
                     | None \<Rightarrow>
                         (case leaderboards of
                            [lb] \<Rightarrow> Inr (Some lb)
                          | _ \<Rightarrow> Inr (find (\<lambda>lb. lb_name lb \<noteq> [] \<or> lb_host lb \<noteq> []) leaderboards))))))"

definition query_leaderboard_chain ::
  "string \<Rightarrow> string \<Rightarrow> qdata reply \<Rightarrow> tester \<Rightarrow> (exn + leaderboard option) \<times> tester"
where
  "query_leaderboard_chain leaderboard_id chain_id r t =
     (chain_entry leaderboard_id r,
      t\<lparr>t_sent := t_sent t @ [LeaderboardsQuery (endpoint (t_base_url t) chain_id (t_app_id t))]\<rparr>)"

text \<open>What \<open>check_leaderboard_scores\<close> reports for one tournament.\<close>

datatype score_report = StreamingSuccessful | NoBoardsRegistered | ChainQueryFailed

definition score_report_of :: "leaderboard option \<Rightarrow> score_report" where
  "score_report_of lb_details =
     (case lb_details of
        None \<Rightarrow> ChainQueryFailed
      | Some lb \<Rightarrow> if totalBoards lb > 0 then StreamingSuccessful else NoBoardsRegistered)"

fun scores_loop ::
  "leaderboard list \<Rightarrow> (nat \<Rightarrow> qdata reply) \<Rightarrow> nat \<Rightarrow> (string \<times> score_report) list \<Rightarrow> tester
     \<Rightarrow> (exn + (string \<times> score_report) list) \<times> tester"
where
  "scores_loop [] net i reports t = (Inr reports, t)"
| "scores_loop (lb # lbs) net i reports t =
     (case query_leaderboard_chain (leaderboardId lb) (lb_chainId lb) (net i) t of
        (Inl e, t1) \<Rightarrow> (Inl e, t1)
      | (Inr lb_details, t1) \<Rightarrow>
          scores_loop lbs net (Suc i) (reports @ [(lb_name lb, score_report_of lb_details)]) t1)"

definition check_leaderboard_scores ::
  "qdata reply \<Rightarrow> (nat \<Rightarrow> qdata reply) \<Rightarrow> tester \<Rightarrow> (exn + (string \<times> score_report) list) \<times> tester"
where
  "check_leaderboard_scores r net t =
     (let t1 = t\<lparr>t_sent := t_sent t @ [LeaderboardsQuery (t_main_url t)]\<rparr> in
      case make_graphql_request True r of
        Inl e \<Rightarrow> (Inl e, t1)
      | Inr result \<Rightarrow>
          (case payload result of
             None \<Rightarrow> (Inr [], t1)
           | Some d \<Rightarrow>
               (case q_leaderboards d of
                  None \<Rightarrow> (Inr [], t1)
                | Some lbs \<Rightarrow>
                    scores_loop (filter (\<lambda>lb. leaderboardId lb \<noteq> [] \<and> lb_host lb = username t1) lbs)
                      net 0 [] t1)))"

section \<open>The tester of \<open>test_tournaments.py\<close>\<close>

text \<open>
  Its \<open>make_graphql_request\<close> checks the status first, then decodes the body, and gives
  \<open>None\<close> for a body with an \<open>errors\<close> key; every exception is caught.
\<close>

definition legacy_make_graphql_request :: "'d reply \<Rightarrow> 'd body option" where
  "legacy_make_graphql_request r =
     (case r of
        Timeout \<Rightarrow> None
      | RequestFailed \<Rightarrow> None
      | Response status b \<Rightarrow>
          if raises_for_status status then None
          else (case b of
                  None \<Rightarrow> None
                | Some bd \<Rightarrow> if errors bd \<noteq> None then None else Some bd))"

text \<open>
  Its \<open>create_board\<close>, with the player and password fixed to \<open>hello\<close>: the result is
  whether the mutation returned data.
\<close>

definition legacy_create_board :: "string \<Rightarrow> string \<Rightarrow> string option reply \<Rightarrow> tester \<Rightarrow> bool \<times> tester" where
  "legacy_create_board tournament_id timestamp r t =
     (if \<not> truthy (player_chain_id t) then (False, t)
      else
        (let t1 = t\<lparr>t_sent := t_sent t @ [NewBoard (player_url t) ''hello'' ''hello'' timestamp tournament_id]\<rparr>
         in (payload (legacy_make_graphql_request r) \<noteq> None, t1)))"

section \<open>The convergence poller\<close>




section \<open>Properties of the coordinator\<close>

lemma str_int_0: "str_int 0 = ''0''"
  by (simp add: str_int_def str_nat.simps digit_char_def)

text \<open>
  The creation loop only appends creation requests, one for each configuration of a
  prefix of the list, and leaves the addresses and the credentials alone.
\<close>

lemma create_loop_sent:
  "\<exists>k \<le> length cfgs. sent (snd (create_loop cfgs net i c)) = sent c @ map (create_request c) (take k cfgs)
     \<and> main_url (snd (create_loop cfgs net i c)) = main_url c
     \<and> coordinator_username (snd (create_loop cfgs net i c)) = coordinator_username c
     \<and> coordinator_password (snd (create_loop cfgs net i c)) = coordinator_password c
     \<and> base_url (snd (create_loop cfgs net i c)) = base_url c
     \<and> app_id (snd (create_loop cfgs net i c)) = app_id c"
proof (induction cfgs arbitrary: i c)
  case Nil
  then show ?case by simp
next
  case (Cons cfg cfgs)
  show ?case
  proof (cases "make_graphql_request True (net i)")
    case (Inl e)
    then show ?thesis
      by (intro exI[of _ "Suc 0"]) (simp add: Let_def)
  next
    case (Inr result)
    show ?thesis
    proof (cases "payload result")
      case None
      with Inr show ?thesis
        by (intro exI[of _ "Suc 0"]) (simp add: Let_def)
    next
      case (Some v)
      define c2 where "c2 = c\<lparr>sent := sent c @ [create_request c cfg],
          created_tournaments := created_tournaments c @
            [\<lparr>ct_name = cfg_name cfg, ct_host = coordinator_username c,
              ct_shard_count = cfg_shard_number cfg, ct_description = cfg_description cfg,
              ct_creation_result = v\<rparr>]\<rparr>"
      have step: "create_loop (cfg # cfgs) net i c = create_loop cfgs net (Suc i) c2"
        using Inr Some by (simp add: Let_def c2_def)
      from Cons.IH[of "Suc i" c2] obtain k where k: "k \<le> length cfgs"
        "sent (snd (create_loop cfgs net (Suc i) c2)) = sent c2 @ map (create_request c2) (take k cfgs)"
        "main_url (snd (create_loop cfgs net (Suc i) c2)) = main_url c2"
        "coordinator_username (snd (create_loop cfgs net (Suc i) c2)) = coordinator_username c2"
        "coordinator_password (snd (create_loop cfgs net (Suc i) c2)) = coordinator_password c2"
        "base_url (snd (create_loop cfgs net (Suc i) c2)) = base_url c2"
        "app_id (snd (create_loop cfgs net (Suc i) c2)) = app_id c2"
        by blast
      have eq: "create_request c2 = create_request c"
        by (rule ext) (simp add: create_request_def c2_def)
      show ?thesis
        unfolding step using k eq
        by (intro exI[of _ "Suc k"]) (simp add: c2_def)
    qed
  qed
qed

lemma create_stress_sent:
  "\<exists>k\<le>nat n. sent (snd (create_stress_test_tournaments n s net c)) =
      sent c @ map (\<lambda>i. LeaderboardCreate (main_url c) (str_int (int i)) ''0'' ''0'' s
                            (coordinator_username c) (coordinator_password c)) [0..<k]"
proof -
  let ?cfgs = "tournament_configs n s"
  from create_loop_sent[of ?cfgs net 0 c] obtain k where k: "k \<le> length ?cfgs"
    "sent (snd (create_loop ?cfgs net 0 c)) = sent c @ map (create_request c) (take k ?cfgs)"
    by blast
  have len: "length ?cfgs = nat n" by (simp add: tournament_configs_def)
  have "take k ?cfgs = map (\<lambda>i. \<lparr>cfg_name = str_int (int i), cfg_start_time = 0, cfg_end_time = 0,
               cfg_shard_number = s, cfg_description = ''Tournament '' @ str_int (int i)\<rparr>) [0..<k]"
    using k(1) len by (simp add: tournament_configs_def take_map take_upt)
  then have "map (create_request c) (take k ?cfgs) =
      map (\<lambda>i. LeaderboardCreate (main_url c) (str_int (int i)) ''0'' ''0'' s
                            (coordinator_username c) (coordinator_password c)) [0..<k]"
    by (simp add: create_request_def str_int_0 comp_def)
  with k len show ?thesis
    unfolding create_stress_test_tournaments_def by auto
qed

text \<open>
  The coordinator's loop ends at the first creation whose request returns no data: the
  result is False, the requests sent are the creations up to that one, and only the
  tournaments before it are recorded.
\<close>

lemma create_loop_stops:
  "k < length cfgs \<Longrightarrow> (\<forall>j<k. request_has_data (net (i + j))) \<Longrightarrow> request_without_data (net (i + k)) \<Longrightarrow>
   fst (create_loop cfgs net i c) = Inr False \<and>
   sent (snd (create_loop cfgs net i c)) = sent c @ map (create_request c) (take (Suc k) cfgs) \<and>
   length (created_tournaments (snd (create_loop cfgs net i c))) = length (created_tournaments c) + k"
proof (induction cfgs arbitrary: k i c)
  case Nil
  then show ?case by simp
next
  case (Cons cfg cfgs)
  show ?case
  proof (cases k)
    case 0
    with Cons.prems show ?thesis
      by (auto simp: request_without_data_def Let_def split: sum.splits)
  next
    case (Suc k')
    from Cons.prems(2) Suc have "request_has_data (net i)" by force
    then obtain result v where v: "make_graphql_request True (net i) = Inr result" "payload result = Some v"
      by (auto simp: request_has_data_def split: sum.splits)
    define c2 where "c2 = c\<lparr>sent := sent c @ [create_request c cfg],
          created_tournaments := created_tournaments c @
            [\<lparr>ct_name = cfg_name cfg, ct_host = coordinator_username c,
              ct_shard_count = cfg_shard_number cfg, ct_description = cfg_description cfg,
              ct_creation_result = v\<rparr>]\<rparr>"
    have step: "create_loop (cfg # cfgs) net i c = create_loop cfgs net (Suc i) c2"
      using v by (simp add: Let_def c2_def)
    have p1: "k' < length cfgs" using Cons.prems(1) Suc by simp
    have p2: "\<forall>j<k'. request_has_data (net (Suc i + j))"
      using Cons.prems(2) Suc by (metis Suc_less_eq add_Suc_shift)
    have p3: "request_without_data (net (Suc i + k'))" using Cons.prems(3) Suc by simp
    have eq: "create_request c2 = create_request c"
      by (rule ext) (simp add: create_request_def c2_def)
    from Cons.IH[OF p1 p2 p3, of c2] show ?thesis
      unfolding step using Suc eq by (simp add: c2_def)
  qed
qed

lemma create_stress_stops:
  "k < nat n \<Longrightarrow> (\<forall>j<k. request_has_data (net j)) \<Longrightarrow> request_without_data (net k) \<Longrightarrow>
   fst (create_stress_test_tournaments n s net c) = Inr False \<and>
   sent (snd (create_stress_test_tournaments n s net c)) =
     sent c @ map (\<lambda>i. LeaderboardCreate (main_url c) (str_int (int i)) ''0'' ''0'' s
                           (coordinator_username c) (coordinator_password c)) [0..<Suc k] \<and>
   length (created_tournaments (snd (create_stress_test_tournaments n s net c))) = length (created_tournaments c) + k"
proof -
  assume a: "k < nat n" "\<forall>j<k. request_has_data (net j)" "request_without_data (net k)"
  let ?cfgs = "tournament_configs n s"
  have len: "length ?cfgs = nat n" by (simp add: tournament_configs_def)
  have tk: "take (Suc k) ?cfgs = map (\<lambda>i. \<lparr>cfg_name = str_int (int i), cfg_start_time = 0, cfg_end_time = 0,
               cfg_shard_number = s, cfg_description = ''Tournament '' @ str_int (int i)\<rparr>) [0..<Suc k]"
    using a(1) by (simp add: tournament_configs_def take_map take_upt del: upt_Suc)
  have "map (create_request c) (take (Suc k) ?cfgs) =
      map (\<lambda>i. LeaderboardCreate (main_url c) (str_int (int i)) ''0'' ''0'' s
                            (coordinator_username c) (coordinator_password c)) [0..<Suc k]"
    unfolding tk by (simp add: create_request_def str_int_0 comp_def del: upt_Suc)
  with create_loop_stops[of k ?cfgs net 0 c] a len show ?thesis
    unfolding create_stress_test_tournaments_def by simp
qed

text \<open>
  When every creation request returns data, the coordinator's loop sends one creation for
  each configuration and records one tournament for each, in order.
\<close>

lemma create_loop_all:
  "(\<forall>j<length cfgs. request_has_data (net (i + j))) \<Longrightarrow>
   fst (create_loop cfgs net i c) = Inr True \<and>
   sent (snd (create_loop cfgs net i c)) = sent c @ map (create_request c) cfgs \<and>
   map ct_name (created_tournaments (snd (create_loop cfgs net i c))) =
     map ct_name (created_tournaments c) @ map cfg_name cfgs"
proof (induction cfgs arbitrary: i c)
  case Nil
  then show ?case by simp
next
  case (Cons cfg cfgs)
  from Cons.prems have "request_has_data (net i)" by force
  then obtain result v where v: "make_graphql_request True (net i) = Inr result" "payload result = Some v"
    by (auto simp: request_has_data_def split: sum.splits)
  define c2 where "c2 = c\<lparr>sent := sent c @ [create_request c cfg],
        created_tournaments := created_tournaments c @
          [\<lparr>ct_name = cfg_name cfg, ct_host = coordinator_username c,
            ct_shard_count = cfg_shard_number cfg, ct_description = cfg_description cfg,
            ct_creation_result = v\<rparr>]\<rparr>"
  have step: "create_loop (cfg # cfgs) net i c = create_loop cfgs net (Suc i) c2"
    using v by (simp add: Let_def c2_def)
  have p2: "\<forall>j<length cfgs. request_has_data (net (Suc i + j))"
    using Cons.prems by (metis Suc_less_eq add_Suc_shift length_Cons)
  have eq: "create_request c2 = create_request c"
    by (rule ext) (simp add: create_request_def c2_def)
  from Cons.IH[OF p2, of c2] show ?case
    unfolding step using eq by (simp add: c2_def)
qed

lemma create_stress_all:
  "(\<forall>j<nat n. request_has_data (net j)) \<Longrightarrow>
   fst (create_stress_test_tournaments n s net c) = Inr True \<and>
   sent (snd (create_stress_test_tournaments n s net c)) =
     sent c @ map (\<lambda>i. LeaderboardCreate (main_url c) (str_int (int i)) ''0'' ''0'' s
                           (coordinator_username c) (coordinator_password c)) [0..<nat n] \<and>
   map ct_name (created_tournaments (snd (create_stress_test_tournaments n s net c))) =
     map ct_name (created_tournaments c) @ map (\<lambda>i. str_int (int i)) [0..<nat n]"
proof -
  assume a: "\<forall>j<nat n. request_has_data (net j)"
  let ?cfgs = "tournament_configs n s"
  have len: "length ?cfgs = nat n" by (simp add: tournament_configs_def)
  have rq: "map (create_request c) ?cfgs =
      map (\<lambda>i. LeaderboardCreate (main_url c) (str_int (int i)) ''0'' ''0'' s
                            (coordinator_username c) (coordinator_password c)) [0..<nat n]"
    by (simp add: tournament_configs_def create_request_def str_int_0 comp_def)
  have nm: "map cfg_name ?cfgs = map (\<lambda>i. str_int (int i)) [0..<nat n]"
    by (simp add: tournament_configs_def comp_def)
  from create_loop_all[of ?cfgs net 0 c] a len rq nm show ?thesis
    unfolding create_stress_test_tournaments_def by simp
qed

text \<open>
  C9. In bulk provisioning every created tournament gets the permissive window. Each of
  the \<open>num_tournaments\<close> configurations has start time 0 and end time 0. Whatever the
  service answers, every request that \<open>create_stress_test_tournaments\<close> sends is a
  creation with \<open>startTime\<close> and \<open>endTime\<close> both \<open>"0"\<close>, for the names \<open>"0"\<close>, \<open>"1"\<close>,
  ... in order. When every creation request returns data, the function returns True, has
  sent exactly \<open>num_tournaments\<close> such creations, and has recorded a tournament for each
  of the names.
\<close>

theorem bulk_windows_permissive:
  "length (tournament_configs n s) = nat n
   \<and> map (\<lambda>cfg. (cfg_start_time cfg, cfg_end_time cfg)) (tournament_configs n s) = replicate (nat n) (0, 0)
   \<and> (\<exists>k\<le>nat n. sent (snd (create_stress_test_tournaments n s net c)) =
          sent c @ map (\<lambda>i. LeaderboardCreate (main_url c) (str_int (int i)) ''0'' ''0'' s
                                (coordinator_username c) (coordinator_password c)) [0..<k])
   \<and> ((\<forall>j<nat n. request_has_data (net j)) \<longrightarrow>
        fst (create_stress_test_tournaments n s net c) = Inr True
        \<and> sent (snd (create_stress_test_tournaments n s net c)) =
            sent c @ map (\<lambda>i. LeaderboardCreate (main_url c) (str_int (int i)) ''0'' ''0'' s
                                  (coordinator_username c) (coordinator_password c)) [0..<nat n]
        \<and> map ct_name (created_tournaments (snd (create_stress_test_tournaments n s net c))) =
            map ct_name (created_tournaments c) @ map (\<lambda>i. str_int (int i)) [0..<nat n])"
  using create_stress_sent[of n s net c] create_stress_all[of n net s c]
  by (simp add: tournament_configs_def comp_def map_replicate_const)

text \<open>Three tournaments, every creation answered with data: three creations, all with the window 0, 0.\<close>

theorem bulk_windows_permissive_witness:
  "fst (create_stress_test_tournaments 3 8
          (\<lambda>i. Response 200 (Some (Body None (Some (Some ''a1b2'')))))
          (new_coordinator ''chain'' ''app'' ''http://localhost:8088'' ''ab12cd34'')) = Inr True
   \<and> sent (snd (create_stress_test_tournaments 3 8
          (\<lambda>i. Response 200 (Some (Body None (Some (Some ''a1b2'')))))
          (new_coordinator ''chain'' ''app'' ''http://localhost:8088'' ''ab12cd34''))) =
       [LeaderboardCreate ''http://localhost:8088/chains/chain/applications/app'' ''0'' ''0'' ''0'' 8
          ''coord_ab12cd34'' ''pass_ab12cd34'',
        LeaderboardCreate ''http://localhost:8088/chains/chain/applications/app'' ''1'' ''0'' ''0'' 8
          ''coord_ab12cd34'' ''pass_ab12cd34'',
        LeaderboardCreate ''http://localhost:8088/chains/chain/applications/app'' ''2'' ''0'' ''0'' 8
          ''coord_ab12cd34'' ''pass_ab12cd34'']
   \<and> map ct_name (created_tournaments (snd (create_stress_test_tournaments 3 8
          (\<lambda>i. Response 200 (Some (Body None (Some (Some ''a1b2'')))))
          (new_coordinator ''chain'' ''app'' ''http://localhost:8088'' ''ab12cd34'')))) = [''0'', ''1'', ''2'']"
proof -
  have ok: "request_has_data (Response 200 (Some (Body None (Some (Some ''a1b2'')))))"
    by (simp add: request_has_data_def make_graphql_request_def payload_def raises_for_status_def)
  then have h: "\<forall>j<nat 3. request_has_data ((\<lambda>i::nat. Response 200 (Some (Body None (Some (Some ''a1b2''))))) j)"
    by simp
  from h bulk_windows_permissive[of 3 8 "\<lambda>i::nat. Response 200 (Some (Body None (Some (Some ''a1b2''))))"
      "new_coordinator ''chain'' ''app'' ''http://localhost:8088'' ''ab12cd34''"]
  show ?thesis
    by (simp add: new_coordinator_def endpoint_def str_int_def str_nat.simps digit_char_def upt_conv_Cons)
qed

lemma register_snd:
  "snd (register_coordinator r c) =
     c\<lparr>sent := sent c @ [RegisterPlayer (main_url c) (coordinator_username c) (coordinator_password c)]\<rparr>"
  by (simp add: register_coordinator_def Let_def split: sum.splits)

lemma query_details_sent: "\<exists>ys. sent (snd (query_tournament_details r c)) = sent c @ ys"
  by (auto simp: query_tournament_details_def Let_def split: sum.splits option.splits)

lemma accessibility_loop_sent: "\<exists>ys. sent (snd (accessibility_loop ts net i a c)) = sent c @ ys"
proof (induction ts arbitrary: i a c)
  case Nil
  then show ?case by simp
next
  case (Cons t ts)
  show ?case
  proof (cases "make_graphql_request False (net i)")
    case (Inl e)
    then show ?thesis by (simp add: Let_def)
  next
    case (Inr result)
    let ?c1 = "c\<lparr>sent := sent c @ [LeaderboardsQuery (endpoint (base_url c) (td_chainId t) (app_id c))]\<rparr>"
    from Cons.IH[of "Suc i" "a \<and> payload result \<noteq> None" ?c1]
    obtain ys where "sent (snd (accessibility_loop ts net (Suc i) (a \<and> payload result \<noteq> None) ?c1)) = sent ?c1 @ ys"
      by blast
    with Inr show ?thesis by (simp add: Let_def)
  qed
qed

lemma verify_sent: "\<exists>ys. sent (snd (verify_tournament_accessibility net c)) = sent c @ ys"
  using accessibility_loop_sent by (simp add: verify_tournament_accessibility_def)

text \<open>Whatever the service answers, the setup starts by sending the registration.\<close>

lemma run_sent:
  "\<exists>ys. sent (snd (run_coordinator_setup n s net c)) =
      sent c @ RegisterPlayer (main_url c) (coordinator_username c) (coordinator_password c) # ys"
proof -
  obtain o1 c1 where r1: "register_coordinator (reg_reply net) c = (o1, c1)" by force
  have s1: "sent c1 = sent c @ [RegisterPlayer (main_url c) (coordinator_username c) (coordinator_password c)]"
    using register_snd[of "reg_reply net" c] r1 by simp
  obtain o2 c2 where r2: "create_stress_test_tournaments n s (create_replies net) c1 = (o2, c2)" by force
  obtain ys2 where s2: "sent c2 = sent c1 @ ys2"
    using create_stress_sent[of n s "create_replies net" c1] r2 by auto
  obtain o3 c3 where r3: "query_tournament_details (details_reply net) c2 = (o3, c3)" by force
  obtain ys3 where s3: "sent c3 = sent c2 @ ys3"
    using query_details_sent[of "details_reply net" c2] r3 by auto
  obtain o4 c4 where r4: "verify_tournament_accessibility (access_replies net) c3 = (o4, c4)" by force
  obtain ys4 where s4: "sent c4 = sent c3 @ ys4"
    using verify_sent[of "access_replies net" c3] r4 by auto
  show ?thesis
    unfolding run_coordinator_setup_def
    using r1 r2 r3 r4 s1 s2 s3 s4
    by (auto split: sum.splits bool.splits)
qed

text \<open>
  C10. The coordinator's \<open>main\<close> checks its two numbers before anything reaches the
  network: with a tournament count outside 1..10 or a shard count outside 1..32 it exits
  with code 1 and has sent no request; with both inside their bounds the setup runs, and
  the first request it sends is the coordinator's registration.
\<close>

theorem main_validates_before_network:
  "(num < 1 \<or> num > 10 \<or> shards < 1 \<or> shards > 32
      \<longrightarrow> main chain app num shards url suffix net = (1, []))
   \<and> (1 \<le> num \<and> num \<le> 10 \<and> 1 \<le> shards \<and> shards \<le> 32
      \<longrightarrow> (\<exists>rest. snd (main chain app num shards url suffix net) =
             RegisterPlayer (endpoint url chain app) (''coord_'' @ suffix) (''pass_'' @ suffix) # rest))"
proof -
  let ?c = "new_coordinator chain app url suffix"
  obtain ys where "sent (snd (run_coordinator_setup num shards net ?c)) =
      sent ?c @ RegisterPlayer (main_url ?c) (coordinator_username ?c) (coordinator_password ?c) # ys"
    using run_sent by blast
  then have "sent (snd (run_coordinator_setup num shards net ?c)) =
      RegisterPlayer (endpoint url chain app) (''coord_'' @ suffix) (''pass_'' @ suffix) # ys"
    by (simp add: new_coordinator_def)
  then show ?thesis
    by (auto simp: main_def split: prod.splits sum.splits bool.splits)
qed

theorem main_validates_before_network_witness:
  "main ''chain'' ''app'' 11 8 ''http://localhost:8088'' ''abcdefgh''
      \<lparr>reg_reply = Timeout, create_replies = (\<lambda>i. Timeout), details_reply = Timeout,
       save_ok = True, access_replies = (\<lambda>i. Timeout)\<rparr> = (1, [])
   \<and> main ''chain'' ''app'' 3 33 ''http://localhost:8088'' ''abcdefgh''
      \<lparr>reg_reply = Timeout, create_replies = (\<lambda>i. Timeout), details_reply = Timeout,
       save_ok = True, access_replies = (\<lambda>i. Timeout)\<rparr> = (1, [])
   \<and> (\<exists>rest. snd (main ''chain'' ''app'' 3 8 ''http://localhost:8088'' ''abcdefgh''
      \<lparr>reg_reply = Timeout, create_replies = (\<lambda>i. Timeout), details_reply = Timeout,
       save_ok = True, access_replies = (\<lambda>i. Timeout)\<rparr>) =
      RegisterPlayer (endpoint ''http://localhost:8088'' ''chain'' ''app'') (''coord_'' @ ''abcdefgh'')
        (''pass_'' @ ''abcdefgh'') # rest)"
  using main_validates_before_network[of 11 8 "''chain''" "''app''" "''http://localhost:8088''" "''abcdefgh''"
          "\<lparr>reg_reply = Timeout, create_replies = (\<lambda>i. Timeout), details_reply = Timeout,
            save_ok = True, access_replies = (\<lambda>i. Timeout)\<rparr>"]
        main_validates_before_network[of 3 33 "''chain''" "''app''" "''http://localhost:8088''" "''abcdefgh''"
          "\<lparr>reg_reply = Timeout, create_replies = (\<lambda>i. Timeout), details_reply = Timeout,
            save_ok = True, access_replies = (\<lambda>i. Timeout)\<rparr>"]
        main_validates_before_network[of 3 8 "''chain''" "''app''" "''http://localhost:8088''" "''abcdefgh''"
          "\<lparr>reg_reply = Timeout, create_replies = (\<lambda>i. Timeout), details_reply = Timeout,
            save_ok = True, access_replies = (\<lambda>i. Timeout)\<rparr>"]
  by simp

section \<open>Properties of the scenario creation\<close>

text \<open>
  The loop ends at the first creation that yields no value: the result is \<open>None\<close>, and
  the requests sent are those of the scenarios up to that one.
\<close>

lemma create_scenarios_loop_stops:
  "k < length scs \<Longrightarrow> (\<forall>j<k. created_ok (net (i + j))) \<Longrightarrow> creation_refused (net (i + k)) \<Longrightarrow>
   fst (create_scenarios_loop scs net i created t) = Inr None \<and>
   t_sent (snd (create_scenarios_loop scs net i created t)) = t_sent t @ map (request_of t) (take (Suc k) scs)"
proof (induction scs arbitrary: k i created t)
  case Nil
  then show ?case by simp
next
  case (Cons sc scs)
  obtain name s e a where sc: "sc = (name, s, e, a)" by (cases sc) auto
  show ?case
  proof (cases k)
    case 0
    with Cons.prems show ?thesis
      by (auto simp: sc create_tournament_with_time_def creation_refused_def request_of_def
               split: sum.splits)
  next
    case (Suc k')
    from Cons.prems(2) Suc have ok0: "created_ok (net i)" by force
    then obtain v where v: "mutation_value (net i) = Inr v" "truthy v"
      by (auto simp: created_ok_def split: sum.splits)
    let ?t1 = "t\<lparr>t_sent := t_sent t @ [creation_request t name s e]\<rparr>"
    let ?cr = "created @ [\<lparr>sc_name = name, sc_start_time = s, sc_end_time = e,
                               should_be_active = a, sc_host = username ?t1\<rparr>]"
    have step: "create_scenarios_loop (sc # scs) net i created t = create_scenarios_loop scs net (Suc i) ?cr ?t1"
      using v by (simp add: sc create_tournament_with_time_def)
    have p1: "k' < length scs" using Cons.prems(1) Suc by simp
    have p2: "\<forall>j<k'. created_ok (net (Suc i + j))"
      using Cons.prems(2) Suc by (metis Suc_less_eq add_Suc_shift)
    have p3: "creation_refused (net (Suc i + k'))" using Cons.prems(3) Suc by simp
    have rq: "request_of ?t1 = request_of t"
      by (rule ext) (simp add: request_of_def creation_request_def split: prod.splits)
    from Cons.IH[OF p1 p2 p3, of ?cr ?t1] show ?thesis
      unfolding step using Suc rq by (simp add: sc request_of_def)
  qed
qed

text \<open>When every creation yields a value, every scenario is kept, in order.\<close>

lemma create_scenarios_loop_all:
  "(\<forall>j<length scs. created_ok (net (i + j))) \<Longrightarrow>
   fst (create_scenarios_loop scs net i created t) = Inr (Some (created @ map (scenario_of (username t)) scs)) \<and>
   t_sent (snd (create_scenarios_loop scs net i created t)) = t_sent t @ map (request_of t) scs"
proof (induction scs arbitrary: i created t)
  case Nil
  then show ?case by simp
next
  case (Cons sc scs)
  obtain name s e a where sc: "sc = (name, s, e, a)" by (cases sc) auto
  from Cons.prems have ok0: "created_ok (net i)" by force
  then obtain v where v: "mutation_value (net i) = Inr v" "truthy v"
    by (auto simp: created_ok_def split: sum.splits)
  let ?t1 = "t\<lparr>t_sent := t_sent t @ [creation_request t name s e]\<rparr>"
  let ?cr = "created @ [\<lparr>sc_name = name, sc_start_time = s, sc_end_time = e,
                             should_be_active = a, sc_host = username ?t1\<rparr>]"
  have step: "create_scenarios_loop (sc # scs) net i created t = create_scenarios_loop scs net (Suc i) ?cr ?t1"
    using v by (simp add: sc create_tournament_with_time_def)
  have p2: "\<forall>j<length scs. created_ok (net (Suc i + j))"
    using Cons.prems by (metis Suc_less_eq add_Suc_shift length_Cons)
  have rq: "request_of ?t1 = request_of t"
    by (rule ext) (simp add: request_of_def creation_request_def split: prod.splits)
  from Cons.IH[OF p2, of ?cr ?t1] show ?case
    unfolding step using rq by (simp add: sc request_of_def scenario_of_def)
qed

text \<open>
  C8 (as amended). Creation stops at the first failure. \<open>create_multiple_test_tournaments\<close>
  stops at the first of its four scenarios whose creation yields no value: it returns
  \<open>None\<close> and has sent the creations of the scenarios up to and including that one only,
  so no later scenario is attempted or reported; when all four creations yield a value,
  the four scenarios are returned in order. \<open>create_stress_test_tournaments\<close> stops in
  the same way at the first creation whose request returns no data: it returns False, has
  sent the creations up to that one only, and has recorded the tournaments before it.
\<close>

theorem creation_stops_at_first_failure:
  "(k < 4 \<and> (\<forall>j<k. created_ok (net j)) \<and> creation_refused (net k) \<longrightarrow>
      fst (create_multiple_test_tournaments current_time net t) = Inr None \<and>
      t_sent (snd (create_multiple_test_tournaments current_time net t)) =
        t_sent t @ map (request_of t) (take (Suc k) (tournament_scenarios current_time)))
   \<and> ((\<forall>j<4. created_ok (net j)) \<longrightarrow>
      fst (create_multiple_test_tournaments current_time net t) =
        Inr (Some (map (scenario_of (username t)) (tournament_scenarios current_time))) \<and>
      t_sent (snd (create_multiple_test_tournaments current_time net t)) =
        t_sent t @ map (request_of t) (tournament_scenarios current_time))
   \<and> (m < nat num \<and> (\<forall>j<m. request_has_data (cnet j)) \<and> request_without_data (cnet m) \<longrightarrow>
      fst (create_stress_test_tournaments num shards cnet c) = Inr False \<and>
      sent (snd (create_stress_test_tournaments num shards cnet c)) =
        sent c @ map (\<lambda>i. LeaderboardCreate (main_url c) (str_int (int i)) ''0'' ''0'' shards
                              (coordinator_username c) (coordinator_password c)) [0..<Suc m] \<and>
      length (created_tournaments (snd (create_stress_test_tournaments num shards cnet c))) =
        length (created_tournaments c) + m)"
proof -
  have len: "length (tournament_scenarios current_time) = 4"
    by (simp add: tournament_scenarios_def)
  have fresh: "(k < 4 \<and> (\<forall>j<k. created_ok (net j)) \<and> creation_refused (net k) \<longrightarrow>
      fst (create_multiple_test_tournaments current_time net t) = Inr None \<and>
      t_sent (snd (create_multiple_test_tournaments current_time net t)) =
        t_sent t @ map (request_of t) (take (Suc k) (tournament_scenarios current_time)))
   \<and> ((\<forall>j<4. created_ok (net j)) \<longrightarrow>
      fst (create_multiple_test_tournaments current_time net t) =
        Inr (Some (map (scenario_of (username t)) (tournament_scenarios current_time))) \<and>
      t_sent (snd (create_multiple_test_tournaments current_time net t)) =
        t_sent t @ map (request_of t) (tournament_scenarios current_time))"
    unfolding create_multiple_test_tournaments_def
    using create_scenarios_loop_stops[of k "tournament_scenarios current_time" net 0 "[]" t]
          create_scenarios_loop_all[of "tournament_scenarios current_time" net 0 "[]" t] len
    by simp
  show ?thesis
    using fresh create_stress_stops[of m num cnet shards c] by blast
qed

text \<open>
  Against C8 as stated: the creation of the second scenario times out; the result is
  \<open>None\<close> and the third and fourth scenarios are never sent.
\<close>

theorem creation_failure_aborts_siblings_counterexample:
  "create_multiple_test_tournaments 1700000000000000
     (\<lambda>i. if i = 1 then Timeout else Response 200 (Some (Body None (Some (Some ''a1b2'')))))
     (new_tester ''chain'' ''app'' ''http://localhost:8088'' ''ab12cd'')
   = (Inr None,
      (new_tester ''chain'' ''app'' ''http://localhost:8088'' ''ab12cd'')
        \<lparr>t_sent :=
          [LeaderboardCreate ''http://localhost:8088/chains/chain/applications/app'' ''past_tournament''
             ''1699996400000000'' ''1699998200000000'' 2 ''test_ab12cd'' ''pass_ab12cd'',
           LeaderboardCreate ''http://localhost:8088/chains/chain/applications/app'' ''future_tournament''
             ''1700003600000000'' ''1700007200000000'' 2 ''test_ab12cd'' ''pass_ab12cd'']\<rparr>)"
  by (simp add: create_multiple_test_tournaments_def tournament_scenarios_def
        create_tournament_with_time_def mutation_value_def make_graphql_request_def payload_def
        raises_for_status_def truthy_def creation_request_def new_tester_def endpoint_def
        str_int_def str_nat.simps digit_char_def)

theorem creation_stops_at_first_failure_witness:
  "fst (create_multiple_test_tournaments 1700000000000000
     (\<lambda>i. if i = 1 then Timeout else Response 200 (Some (Body None (Some (Some ''a1b2'')))))
     (new_tester ''chain'' ''app'' ''http://localhost:8088'' ''ab12cd'')) = Inr None
   \<and> length (t_sent (snd (create_multiple_test_tournaments 1700000000000000
     (\<lambda>i. if i = 1 then Timeout else Response 200 (Some (Body None (Some (Some ''a1b2'')))))
     (new_tester ''chain'' ''app'' ''http://localhost:8088'' ''ab12cd'')))) = 2
   \<and> map_option (map sc_name) (projr (fst (create_multiple_test_tournaments 1700000000000000
     (\<lambda>i. Response 200 (Some (Body None (Some (Some ''a1b2'')))))
     (new_tester ''chain'' ''app'' ''http://localhost:8088'' ''ab12cd'')))) =
       Some [''past_tournament'', ''future_tournament'', ''active_tournament'', ''eternal_tournament'']
   \<and> fst (create_stress_test_tournaments 3 8
     (\<lambda>i. if i = 1 then Timeout else Response 200 (Some (Body None (Some (Some ''a1b2'')))))
     (new_coordinator ''chain'' ''app'' ''http://localhost:8088'' ''ab12cd34'')) = Inr False
   \<and> length (sent (snd (create_stress_test_tournaments 3 8
     (\<lambda>i. if i = 1 then Timeout else Response 200 (Some (Body None (Some (Some ''a1b2'')))))
     (new_coordinator ''chain'' ''app'' ''http://localhost:8088'' ''ab12cd34'')))) = 2
   \<and> length (created_tournaments (snd (create_stress_test_tournaments 3 8
     (\<lambda>i. if i = 1 then Timeout else Response 200 (Some (Body None (Some (Some ''a1b2'')))))
     (new_coordinator ''chain'' ''app'' ''http://localhost:8088'' ''ab12cd34'')))) = 1"
proof -
  let ?ok = "Response 200 (Some (Body None (Some (Some ''a1b2''))))"
  let ?net = "\<lambda>i::nat. if i = 1 then Timeout else ?ok"
  let ?t = "new_tester ''chain'' ''app'' ''http://localhost:8088'' ''ab12cd''"
  let ?c = "new_coordinator ''chain'' ''app'' ''http://localhost:8088'' ''ab12cd34''"
  have ok: "created_ok ?ok"
    by (simp add: created_ok_def mutation_value_def make_graphql_request_def payload_def
          raises_for_status_def truthy_def)
  have bad: "creation_refused Timeout"
    by (simp add: creation_refused_def mutation_value_def make_graphql_request_def payload_def truthy_def)
  have okc: "request_has_data ?ok"
    by (simp add: request_has_data_def make_graphql_request_def payload_def raises_for_status_def)
  have badc: "request_without_data Timeout"
    by (simp add: request_without_data_def make_graphql_request_def payload_def)
  have h1: "(1::nat) < 4 \<and> (\<forall>j<1. created_ok (?net j)) \<and> creation_refused (?net 1)"
    using ok bad by simp
  have h2: "\<forall>j<4. created_ok ((\<lambda>i::nat. ?ok) j)" using ok by simp
  have h3: "(1::nat) < nat 3 \<and> (\<forall>j<1. request_has_data (?net j)) \<and> request_without_data (?net 1)"
    using okc badc by simp
  from h1 h3 creation_stops_at_first_failure[of 1 ?net 1700000000000000 ?t 1 3 ?net 8 ?c]
  have a: "fst (create_multiple_test_tournaments 1700000000000000 ?net ?t) = Inr None"
    "length (t_sent (snd (create_multiple_test_tournaments 1700000000000000 ?net ?t))) = 2"
    "fst (create_stress_test_tournaments 3 8 ?net ?c) = Inr False"
    "length (sent (snd (create_stress_test_tournaments 3 8 ?net ?c))) = 2"
    "length (created_tournaments (snd (create_stress_test_tournaments 3 8 ?net ?c))) = 1"
    by (simp_all add: tournament_scenarios_def new_tester_def new_coordinator_def)
  from h2 creation_stops_at_first_failure[of 0 "\<lambda>i::nat. ?ok" 1700000000000000 ?t 0 0 ?net 8 ?c]
  have b: "map_option (map sc_name) (projr (fst (create_multiple_test_tournaments 1700000000000000
      (\<lambda>i::nat. ?ok) ?t))) =
       Some [''past_tournament'', ''future_tournament'', ''active_tournament'', ''eternal_tournament'']"
    by (simp add: tournament_scenarios_def scenario_of_def)
  from a b show ?thesis by simp
qed

section \<open>Properties of the matching\<close>

lemma find_SomeD: "find P xs = Some x \<Longrightarrow> x \<in> set xs \<and> P x"
  by (induction xs) (auto split: if_splits)

lemma payload_SomeD: "payload result = Some d \<Longrightarrow> \<exists>es. result = Some (Body es (Some d))"
proof -
  assume a: "payload result = Some d"
  then obtain b where b: "result = Some b" "data b = Some d"
    by (cases result) (auto simp: payload_def)
  then show ?thesis by (cases b) auto
qed

lemma my_tournaments_set:
  "lb \<in> set (my_tournaments user lbs) \<longleftrightarrow> lb \<in> set lbs \<and> leaderboardId lb \<noteq> [] \<and> lb_host lb = user"
  by (auto simp: my_tournaments_def)

lemma query_state_username: "username (snd (query_state r t)) = username t"
  by (auto simp: query_state_def Let_def split: sum.splits option.splits list.splits)

text \<open>A state that \<open>query_state\<close> returns is the data of the reply.\<close>

lemma query_state_Some:
  "query_state r t = (Inr (Some d), t') \<Longrightarrow>
     \<exists>es. make_graphql_request True r = Inr (Some (Body es (Some d)))"
  apply (auto simp: query_state_def Let_def payload_def split: sum.splits option.splits list.splits)
  subgoal for b by (cases b) auto
  subgoal for b by (cases b) auto
  done

text \<open>
  A scenario is reported visible exactly when some observed leaderboard with an identifier
  carries the scenario's name and has the player as host.
\<close>

lemma matching_visible:
  "(matching_tournament user name lbs \<noteq> None) =
     (\<exists>lb. lb \<in> set lbs \<and> leaderboardId lb \<noteq> [] \<and> lb_name lb = name \<and> lb_host lb = user)"
  by (auto simp: matching_tournament_def my_tournaments_def find_None_iff)

lemma verify_report:
  "fst (verify_active_tournaments n created r1 r2 t) = Inr (verdict, report) \<Longrightarrow> report \<noteq> [] \<Longrightarrow>
     \<exists>es d lbs. make_graphql_request True r2 = Inr (Some (Body es (Some d))) \<and> q_leaderboards d = Some lbs
       \<and> report = map (\<lambda>sc. (sc_name sc,
                              (\<exists>lb. lb \<in> set lbs \<and> leaderboardId lb \<noteq> [] \<and> lb_name lb = sc_name sc \<and> lb_host lb = username t),
                              should_be_active sc)) created
       \<and> verdict = (actual_count (username t) created lbs = n)"
proof -
  assume a: "fst (verify_active_tournaments n created r1 r2 t) = Inr (verdict, report)" and ne: "report \<noteq> []"
  obtain o1 t1 where q1: "query_state r1 t = (o1, t1)" by force
  obtain o2 t2 where q2: "query_state r2 t1 = (o2, t2)" by force
  have u: "username t2 = username t"
    using query_state_username[of r1 t] query_state_username[of r2 t1] q1 q2 by simp
  from a ne q1 q2 obtain d lbs where d: "o2 = Inr (Some d)" "q_leaderboards d = Some lbs"
      "verdict = (actual_count (username t2) created lbs = n)"
      "report = map (\<lambda>tournament. (sc_name tournament,
           matching_tournament (username t2) (sc_name tournament) lbs \<noteq> None,
           should_be_active tournament)) created"
    by (auto simp: verify_active_tournaments_def split: sum.splits option.splits)
  from query_state_Some[of r2 t1 d t2] q2 d(1) obtain es where
    "make_graphql_request True r2 = Inr (Some (Body es (Some d)))" by auto
  then show ?thesis
    using d(2,3,4) unfolding u matching_visible by blast
qed

lemma actual_count_eq:
  "actual_count user created lbs =
     length (filter (\<lambda>lb. leaderboardId lb \<noteq> [] \<and> lb_host lb = user \<and> lb_name lb \<in> sc_name ` set created) lbs)"
  by (simp add: actual_count_def my_tournaments_def conj_commute conj_left_commute cong: conj_cong)

text \<open>
  What \<open>query_leaderboard_chain\<close> picks is an entry of the chain's reply: the one with
  the identifier asked for, or, when no entry has that identifier, the only entry or an
  entry with a name or a host.
\<close>

lemma chain_entry_SomeD:
  "chain_entry leaderboard_id r = Inr (Some lb) \<Longrightarrow>
     \<exists>es d lbs. make_graphql_request True r = Inr (Some (Body es (Some d))) \<and> q_leaderboards d = Some lbs
        \<and> lb \<in> set lbs
        \<and> (leaderboardId lb = leaderboard_id
            \<or> ((\<forall>x\<in>set lbs. leaderboardId x \<noteq> leaderboard_id)
                \<and> (lbs = [lb] \<or> lb_name lb \<noteq> [] \<or> lb_host lb \<noteq> [])))"
proof -
  assume a: "chain_entry leaderboard_id r = Inr (Some lb)"
  then obtain result d lbs where r: "make_graphql_request True r = Inr result" "payload result = Some d"
      "q_leaderboards d = Some lbs"
    by (auto simp: chain_entry_def split: sum.splits option.splits)
  from payload_SomeD[OF r(2)] obtain es where es: "result = Some (Body es (Some d))" by blast
  show ?thesis
  proof (cases "find (\<lambda>x. leaderboardId x = leaderboard_id) lbs")
    case (Some x)
    with a r have "x = lb" by (simp add: chain_entry_def)
    with find_SomeD[OF Some] r es show ?thesis by auto
  next
    case None
    then have no: "\<forall>x\<in>set lbs. leaderboardId x \<noteq> leaderboard_id"
      by (simp add: find_None_iff)
    have sel: "(case lbs of [x] \<Rightarrow> Inr (Some x)
                 | _ \<Rightarrow> Inr (find (\<lambda>x. lb_name x \<noteq> [] \<or> lb_host x \<noteq> []) lbs))
               = (Inr (Some lb) :: exn + leaderboard option)"
      using a r None by (simp add: chain_entry_def)
    have "lb \<in> set lbs \<and> (lbs = [lb] \<or> lb_name lb \<noteq> [] \<or> lb_host lb \<noteq> [])"
    proof (cases "\<exists>x. lbs = [x]")
      case True
      then obtain x where "lbs = [x]" by blast
      with sel show ?thesis by simp
    next
      case False
      with sel have "find (\<lambda>x. lb_name x \<noteq> [] \<or> lb_host x \<noteq> []) lbs = Some lb"
        by (cases lbs; cases "tl lbs") auto
      from find_SomeD[OF this] show ?thesis by blast
    qed
    with no r es show ?thesis by auto
  qed
qed

text \<open>
  C1 (as amended). The identifier returned by a creation mutation is never used to match:
  \<open>get_tournament_id_by_name\<close> and \<open>verify_active_tournaments\<close> go by name and host. An
  identifier that \<open>get_tournament_id_by_name\<close> returns is the identifier of a leaderboard
  of the state query's reply that carries the requested name and has this run's player
  as host, and the identifiers kept from the creation mutations have no part in the
  result. The tournament that \<open>verify_active_tournaments\<close> matches to a scenario is an
  observed one with the scenario's name and host, so it carries no other (name, host)
  pair; each line of its report marks a scenario visible exactly when the reply to the
  second state query holds a leaderboard with that name and host. Its verdict, however,
  is a comparison of counts: whether the number of observed leaderboards that have an
  identifier, the player as host and a name among all the scenarios' names equals the
  expected count. And the final score check attributes by the identifier of the main
  chain's listing only when the tournament's chain has an entry with it; otherwise
  \<open>query_leaderboard_chain\<close> takes the chain's only entry, or an entry that has a name or
  a host, whatever name and host that entry carries.
\<close>

theorem matching_by_name_and_host:
  "(fst (get_tournament_id_by_name name r t) = Inr (Some tournament_id) \<longrightarrow>
      (\<exists>es d lbs lb. make_graphql_request True r = Inr (Some (Body es (Some d)))
          \<and> q_leaderboards d = Some lbs \<and> lb \<in> set lbs
          \<and> lb_name lb = name \<and> lb_host lb = username t
          \<and> leaderboardId lb = tournament_id \<and> tournament_id \<noteq> []))
   \<and> fst (get_tournament_id_by_name name r (t\<lparr>tournaments := ids\<rparr>)) = fst (get_tournament_id_by_name name r t)
   \<and> (matching_tournament user name lbs = Some lb \<longrightarrow>
        lb \<in> set lbs \<and> lb_name lb = name \<and> lb_host lb = user
        \<and> ((name, user) \<noteq> (name', host') \<longrightarrow> (lb_name lb, lb_host lb) \<noteq> (name', host')))
   \<and> (fst (verify_active_tournaments n created first_reply second_reply t) = Inr (verdict, report) \<and> report \<noteq> [] \<longrightarrow>
        (\<exists>es d obs. make_graphql_request True second_reply = Inr (Some (Body es (Some d))) \<and> q_leaderboards d = Some obs
           \<and> report = map (\<lambda>sc. (sc_name sc,
                  (\<exists>lb. lb \<in> set obs \<and> leaderboardId lb \<noteq> [] \<and> lb_name lb = sc_name sc \<and> lb_host lb = username t),
                  should_be_active sc)) created
           \<and> verdict =
               (length (filter (\<lambda>lb. leaderboardId lb \<noteq> [] \<and> lb_host lb = username t
                                      \<and> lb_name lb \<in> sc_name ` set created) obs) = n)))
   \<and> (chain_entry leaderboard_id chain_reply = Inr (Some entry) \<longrightarrow>
        (\<exists>es d entries. make_graphql_request True chain_reply = Inr (Some (Body es (Some d)))
           \<and> q_leaderboards d = Some entries \<and> entry \<in> set entries
           \<and> (leaderboardId entry = leaderboard_id
               \<or> ((\<forall>x\<in>set entries. leaderboardId x \<noteq> leaderboard_id)
                   \<and> (entries = [entry] \<or> lb_name entry \<noteq> [] \<or> lb_host entry \<noteq> [])))))"
proof (intro conjI impI)
  assume a: "fst (get_tournament_id_by_name name r t) = Inr (Some tournament_id)"
  obtain o1 t1 where q: "query_state r t = (o1, t1)" by force
  have u: "username t1 = username t" using query_state_username[of r t] q by simp
  from a q obtain d lbs lb where d: "o1 = Inr (Some d)" "q_leaderboards d = Some lbs"
    "find (\<lambda>tournament. lb_name tournament = name) (my_tournaments (username t1) lbs) = Some lb"
    "leaderboardId lb = tournament_id"
    by (auto simp: get_tournament_id_by_name_def split: sum.splits option.splits)
  from find_SomeD[OF d(3)] have "lb \<in> set lbs" "leaderboardId lb \<noteq> []" "lb_host lb = username t1" "lb_name lb = name"
    by (auto simp: my_tournaments_set)
  moreover from query_state_Some[of r t d t1] q d(1) obtain es where
    "make_graphql_request True r = Inr (Some (Body es (Some d)))" by auto
  ultimately show "\<exists>es d lbs lb. make_graphql_request True r = Inr (Some (Body es (Some d)))
          \<and> q_leaderboards d = Some lbs \<and> lb \<in> set lbs
          \<and> lb_name lb = name \<and> lb_host lb = username t
          \<and> leaderboardId lb = tournament_id \<and> tournament_id \<noteq> []"
    using d u by auto
next
  show "fst (get_tournament_id_by_name name r (t\<lparr>tournaments := ids\<rparr>)) = fst (get_tournament_id_by_name name r t)"
    by (auto simp: get_tournament_id_by_name_def query_state_def Let_def
             split: sum.splits option.splits list.splits)
next
  assume m: "matching_tournament user name lbs = Some lb"
  from find_SomeD[OF m[unfolded matching_tournament_def]]
  show "lb \<in> set lbs" "lb_name lb = name" "lb_host lb = user"
    by (auto simp: my_tournaments_set)
  then show "(lb_name lb, lb_host lb) \<noteq> (name', host')" if "(name, user) \<noteq> (name', host')"
    using that by auto
next
  assume v: "fst (verify_active_tournaments n created first_reply second_reply t) = Inr (verdict, report) \<and> report \<noteq> []"
  from verify_report[of n created first_reply second_reply t verdict report] v
  show "\<exists>es d obs. make_graphql_request True second_reply = Inr (Some (Body es (Some d))) \<and> q_leaderboards d = Some obs
           \<and> report = map (\<lambda>sc. (sc_name sc,
                  (\<exists>lb. lb \<in> set obs \<and> leaderboardId lb \<noteq> [] \<and> lb_name lb = sc_name sc \<and> lb_host lb = username t),
                  should_be_active sc)) created
           \<and> verdict =
               (length (filter (\<lambda>lb. leaderboardId lb \<noteq> [] \<and> lb_host lb = username t
                                      \<and> lb_name lb \<in> sc_name ` set created) obs) = n)"
    unfolding actual_count_eq by blast
next
  assume c: "chain_entry leaderboard_id chain_reply = Inr (Some entry)"
  from chain_entry_SomeD[OF c]
  show "\<exists>es d entries. make_graphql_request True chain_reply = Inr (Some (Body es (Some d)))
           \<and> q_leaderboards d = Some entries \<and> entry \<in> set entries
           \<and> (leaderboardId entry = leaderboard_id
               \<or> ((\<forall>x\<in>set entries. leaderboardId x \<noteq> leaderboard_id)
                   \<and> (entries = [entry] \<or> lb_name entry \<noteq> [] \<or> lb_host entry \<noteq> [])))"
    by blast
qed

text \<open>
  Against C1 as stated. The main chain lists the player's tournament \<open>active_tournament\<close>
  with identifier \<open>id_mine\<close>; its chain returns a single entry, the tournament
  \<open>rival_cup\<close> of another host with another identifier. \<open>query_leaderboard_chain\<close> takes
  that entry, and \<open>check_leaderboard_scores\<close> reports its five boards as the success of
  \<open>active_tournament\<close>. And in \<open>verify_active_tournaments\<close>, with the expired and the
  future tournament observed and the two active ones not, the verdict is True: the two
  observed tournaments are counted as the two expected ones, although the report marks
  every scenario as mismatched.
\<close>

theorem observed_tournament_credited_to_wrong_scenario_counterexample:
  "chain_entry ''id_mine''
       (Response 200 (Some (Body None (Some
           \<lparr>q_leaderboards = Some
              [\<lparr>leaderboardId = ''id_theirs'', lb_name = ''rival_cup'', lb_host = ''test_zz99zz'',
                lb_chainId = ''c2'', totalBoards = 5, totalPlayers = 3, shardIds = []\<rparr>],
             q_player = None, q_boards = None\<rparr>))))
     = Inr (Some (\<lparr>leaderboardId = ''id_theirs'', lb_name = ''rival_cup'', lb_host = ''test_zz99zz'',
                lb_chainId = ''c2'', totalBoards = 5, totalPlayers = 3, shardIds = []\<rparr>))
   \<and> (lb_name (\<lparr>leaderboardId = ''id_theirs'', lb_name = ''rival_cup'', lb_host = ''test_zz99zz'',
                lb_chainId = ''c2'', totalBoards = 5, totalPlayers = 3, shardIds = []\<rparr>), lb_host (\<lparr>leaderboardId = ''id_theirs'', lb_name = ''rival_cup'', lb_host = ''test_zz99zz'',
                lb_chainId = ''c2'', totalBoards = 5, totalPlayers = 3, shardIds = []\<rparr>)) \<noteq> (''active_tournament'', ''test_ab12cd'')
   \<and> fst (check_leaderboard_scores
         (Response 200 (Some (Body None (Some
           \<lparr>q_leaderboards = Some
              [\<lparr>leaderboardId = ''id_mine'', lb_name = ''active_tournament'', lb_host = ''test_ab12cd'',
                lb_chainId = ''c2'', totalBoards = 0, totalPlayers = 0, shardIds = []\<rparr>],
             q_player = None, q_boards = None\<rparr>))))
         (\<lambda>i. Response 200 (Some (Body None (Some
           \<lparr>q_leaderboards = Some
              [\<lparr>leaderboardId = ''id_theirs'', lb_name = ''rival_cup'', lb_host = ''test_zz99zz'',
                lb_chainId = ''c2'', totalBoards = 5, totalPlayers = 3, shardIds = []\<rparr>],
             q_player = None, q_boards = None\<rparr>))))
         (new_tester ''chain'' ''app'' ''http://localhost:8088'' ''ab12cd''))
     = Inr [(''active_tournament'', StreamingSuccessful)]
   \<and> fst (verify_active_tournaments 2
        [\<lparr>sc_name = ''past_tournament'', sc_start_time = 1699996400000000, sc_end_time = 1699998200000000,
           should_be_active = False, sc_host = ''test_ab12cd''\<rparr>,
         \<lparr>sc_name = ''future_tournament'', sc_start_time = 1700003600000000, sc_end_time = 1700007200000000,
           should_be_active = False, sc_host = ''test_ab12cd''\<rparr>,
         \<lparr>sc_name = ''active_tournament'', sc_start_time = 0, sc_end_time = 0,
           should_be_active = True, sc_host = ''test_ab12cd''\<rparr>,
         \<lparr>sc_name = ''eternal_tournament'', sc_start_time = 0, sc_end_time = 0,
           should_be_active = True, sc_host = ''test_ab12cd''\<rparr>]
        Timeout
        (Response 200 (Some (Body None (Some
           \<lparr>q_leaderboards = Some
              [\<lparr>leaderboardId = ''id_past'', lb_name = ''past_tournament'', lb_host = ''test_ab12cd'',
                lb_chainId = ''c3'', totalBoards = 0, totalPlayers = 0, shardIds = []\<rparr>,
               \<lparr>leaderboardId = ''id_future'', lb_name = ''future_tournament'', lb_host = ''test_ab12cd'',
                lb_chainId = ''c4'', totalBoards = 0, totalPlayers = 0, shardIds = []\<rparr>],
             q_player = None, q_boards = None\<rparr>))))
        (new_tester ''chain'' ''app'' ''http://localhost:8088'' ''ab12cd'')) =
       Inr (True, [(''past_tournament'', True, False), (''future_tournament'', True, False),
                   (''active_tournament'', False, True), (''eternal_tournament'', False, True)])"
  by (simp add: chain_entry_def check_leaderboard_scores_def query_leaderboard_chain_def
        verify_active_tournaments_def query_state_def make_graphql_request_def payload_def
        raises_for_status_def my_tournaments_def matching_tournament_def actual_count_def
        score_report_of_def new_tester_def Let_def)

text \<open>
  Two observed tournaments share the name; the one hosted by another player comes first
  in the reply, and the one of this run's player is the one matched. The report of the
  verification shows the scenario of that name visible and the future scenario hidden,
  and the one observed tournament of the player that carries a scenario's name makes the
  count one. A chain that holds the entry with the identifier asked for returns it.
\<close>

theorem matching_by_name_and_host_witness:
  "fst (get_tournament_id_by_name ''active_tournament''
        (Response 200 (Some (Body None (Some
           \<lparr>q_leaderboards = Some
              [\<lparr>leaderboardId = ''id_theirs'', lb_name = ''active_tournament'', lb_host = ''test_zz99zz'',
                lb_chainId = ''c1'', totalBoards = 0, totalPlayers = 0, shardIds = []\<rparr>,
               \<lparr>leaderboardId = ''id_mine'', lb_name = ''active_tournament'', lb_host = ''test_ab12cd'',
                lb_chainId = ''c2'', totalBoards = 0, totalPlayers = 0, shardIds = []\<rparr>],
             q_player = None, q_boards = None\<rparr>))))
        (new_tester ''chain'' ''app'' ''http://localhost:8088'' ''ab12cd'')) = Inr (Some ''id_mine'')
   \<and> matching_tournament ''test_ab12cd'' ''active_tournament''
         [\<lparr>leaderboardId = ''id_theirs'', lb_name = ''active_tournament'', lb_host = ''test_zz99zz'',
                lb_chainId = ''c1'', totalBoards = 0, totalPlayers = 0, shardIds = []\<rparr>,
          \<lparr>leaderboardId = ''id_mine'', lb_name = ''active_tournament'', lb_host = ''test_ab12cd'',
                lb_chainId = ''c2'', totalBoards = 0, totalPlayers = 0, shardIds = []\<rparr>]
       = Some \<lparr>leaderboardId = ''id_mine'', lb_name = ''active_tournament'', lb_host = ''test_ab12cd'',
                lb_chainId = ''c2'', totalBoards = 0, totalPlayers = 0, shardIds = []\<rparr>
   \<and> (lb_name (\<lparr>leaderboardId = ''id_mine'', lb_name = ''active_tournament'', lb_host = ''test_ab12cd'',
                lb_chainId = ''c2'', totalBoards = 0, totalPlayers = 0, shardIds = []\<rparr>), lb_host (\<lparr>leaderboardId = ''id_mine'', lb_name = ''active_tournament'', lb_host = ''test_ab12cd'',
                lb_chainId = ''c2'', totalBoards = 0, totalPlayers = 0, shardIds = []\<rparr>)) \<noteq> (''active_tournament'', ''test_zz99zz'')
   \<and> fst (verify_active_tournaments 1
        [\<lparr>sc_name = ''future_tournament'', sc_start_time = 1700003600000000, sc_end_time = 1700007200000000,
           should_be_active = False, sc_host = ''test_ab12cd''\<rparr>,
         \<lparr>sc_name = ''active_tournament'', sc_start_time = 0, sc_end_time = 0,
           should_be_active = True, sc_host = ''test_ab12cd''\<rparr>]
        Timeout
        (Response 200 (Some (Body None (Some
           \<lparr>q_leaderboards = Some
              [\<lparr>leaderboardId = ''id_theirs'', lb_name = ''active_tournament'', lb_host = ''test_zz99zz'',
                lb_chainId = ''c1'', totalBoards = 0, totalPlayers = 0, shardIds = []\<rparr>,
               \<lparr>leaderboardId = ''id_mine'', lb_name = ''active_tournament'', lb_host = ''test_ab12cd'',
                lb_chainId = ''c2'', totalBoards = 0, totalPlayers = 0, shardIds = []\<rparr>],
             q_player = None, q_boards = None\<rparr>))))
        (new_tester ''chain'' ''app'' ''http://localhost:8088'' ''ab12cd'')) =
       Inr (True, [(''future_tournament'', False, False), (''active_tournament'', True, True)])
   \<and> chain_entry ''id_mine''
        (Response 200 (Some (Body None (Some
           \<lparr>q_leaderboards = Some
              [\<lparr>leaderboardId = ''id_theirs'', lb_name = ''active_tournament'', lb_host = ''test_zz99zz'',
                lb_chainId = ''c1'', totalBoards = 0, totalPlayers = 0, shardIds = []\<rparr>,
               \<lparr>leaderboardId = ''id_mine'', lb_name = ''active_tournament'', lb_host = ''test_ab12cd'',
                lb_chainId = ''c2'', totalBoards = 0, totalPlayers = 0, shardIds = []\<rparr>],
             q_player = None, q_boards = None\<rparr>))))
       = Inr (Some (\<lparr>leaderboardId = ''id_mine'', lb_name = ''active_tournament'', lb_host = ''test_ab12cd'',
                lb_chainId = ''c2'', totalBoards = 0, totalPlayers = 0, shardIds = []\<rparr>))"
proof -
  have e: "fst (get_tournament_id_by_name ''active_tournament''
        (Response 200 (Some (Body None (Some
           \<lparr>q_leaderboards = Some
              [\<lparr>leaderboardId = ''id_theirs'', lb_name = ''active_tournament'', lb_host = ''test_zz99zz'',
                lb_chainId = ''c1'', totalBoards = 0, totalPlayers = 0, shardIds = []\<rparr>,
               \<lparr>leaderboardId = ''id_mine'', lb_name = ''active_tournament'', lb_host = ''test_ab12cd'',
                lb_chainId = ''c2'', totalBoards = 0, totalPlayers = 0, shardIds = []\<rparr>],
             q_player = None, q_boards = None\<rparr>))))
        (new_tester ''chain'' ''app'' ''http://localhost:8088'' ''ab12cd'')) = Inr (Some ''id_mine'')
   \<and> matching_tournament ''test_ab12cd'' ''active_tournament''
         [\<lparr>leaderboardId = ''id_theirs'', lb_name = ''active_tournament'', lb_host = ''test_zz99zz'',
                lb_chainId = ''c1'', totalBoards = 0, totalPlayers = 0, shardIds = []\<rparr>,
          \<lparr>leaderboardId = ''id_mine'', lb_name = ''active_tournament'', lb_host = ''test_ab12cd'',
                lb_chainId = ''c2'', totalBoards = 0, totalPlayers = 0, shardIds = []\<rparr>]
       = Some \<lparr>leaderboardId = ''id_mine'', lb_name = ''active_tournament'', lb_host = ''test_ab12cd'',
                lb_chainId = ''c2'', totalBoards = 0, totalPlayers = 0, shardIds = []\<rparr>"
    by (simp add: get_tournament_id_by_name_def query_state_def make_graphql_request_def payload_def
          raises_for_status_def my_tournaments_def matching_tournament_def new_tester_def Let_def)
  have v: "fst (verify_active_tournaments 1
        [\<lparr>sc_name = ''future_tournament'', sc_start_time = 1700003600000000, sc_end_time = 1700007200000000,
           should_be_active = False, sc_host = ''test_ab12cd''\<rparr>,
         \<lparr>sc_name = ''active_tournament'', sc_start_time = 0, sc_end_time = 0,
           should_be_active = True, sc_host = ''test_ab12cd''\<rparr>]
        Timeout
        (Response 200 (Some (Body None (Some
           \<lparr>q_leaderboards = Some
              [\<lparr>leaderboardId = ''id_theirs'', lb_name = ''active_tournament'', lb_host = ''test_zz99zz'',
                lb_chainId = ''c1'', totalBoards = 0, totalPlayers = 0, shardIds = []\<rparr>,
               \<lparr>leaderboardId = ''id_mine'', lb_name = ''active_tournament'', lb_host = ''test_ab12cd'',
                lb_chainId = ''c2'', totalBoards = 0, totalPlayers = 0, shardIds = []\<rparr>],
             q_player = None, q_boards = None\<rparr>))))
        (new_tester ''chain'' ''app'' ''http://localhost:8088'' ''ab12cd'')) =
       Inr (True, [(''future_tournament'', False, False), (''active_tournament'', True, True)])"
    by (simp add: verify_active_tournaments_def query_state_def make_graphql_request_def payload_def
          raises_for_status_def my_tournaments_def matching_tournament_def actual_count_def
          new_tester_def Let_def)
  have c: "chain_entry ''id_mine''
        (Response 200 (Some (Body None (Some
           \<lparr>q_leaderboards = Some
              [\<lparr>leaderboardId = ''id_theirs'', lb_name = ''active_tournament'', lb_host = ''test_zz99zz'',
                lb_chainId = ''c1'', totalBoards = 0, totalPlayers = 0, shardIds = []\<rparr>,
               \<lparr>leaderboardId = ''id_mine'', lb_name = ''active_tournament'', lb_host = ''test_ab12cd'',
                lb_chainId = ''c2'', totalBoards = 0, totalPlayers = 0, shardIds = []\<rparr>],
             q_player = None, q_boards = None\<rparr>))))
       = Inr (Some (\<lparr>leaderboardId = ''id_mine'', lb_name = ''active_tournament'', lb_host = ''test_ab12cd'',
                lb_chainId = ''c2'', totalBoards = 0, totalPlayers = 0, shardIds = []\<rparr>))"
    by (simp add: chain_entry_def make_graphql_request_def payload_def raises_for_status_def)
  from e v c matching_by_name_and_host[where name = "''active_tournament''" and user = "''test_ab12cd''"
      and lbs = "[\<lparr>leaderboardId = ''id_theirs'', lb_name = ''active_tournament'', lb_host = ''test_zz99zz'',
                lb_chainId = ''c1'', totalBoards = 0, totalPlayers = 0, shardIds = []\<rparr>,
          \<lparr>leaderboardId = ''id_mine'', lb_name = ''active_tournament'', lb_host = ''test_ab12cd'',
                lb_chainId = ''c2'', totalBoards = 0, totalPlayers = 0, shardIds = []\<rparr>]"
      and lb = "\<lparr>leaderboardId = ''id_mine'', lb_name = ''active_tournament'', lb_host = ''test_ab12cd'',
                lb_chainId = ''c2'', totalBoards = 0, totalPlayers = 0, shardIds = []\<rparr>"
      and name' = "''active_tournament''" and host' = "''test_zz99zz''"
      and t = "new_tester ''chain'' ''app'' ''http://localhost:8088'' ''ab12cd''"
      and r = "Response 200 (Some (Body None (Some
           \<lparr>q_leaderboards = Some
              [\<lparr>leaderboardId = ''id_theirs'', lb_name = ''active_tournament'', lb_host = ''test_zz99zz'',
                lb_chainId = ''c1'', totalBoards = 0, totalPlayers = 0, shardIds = []\<rparr>,
               \<lparr>leaderboardId = ''id_mine'', lb_name = ''active_tournament'', lb_host = ''test_ab12cd'',
                lb_chainId = ''c2'', totalBoards = 0, totalPlayers = 0, shardIds = []\<rparr>],
             q_player = None, q_boards = None\<rparr>)))"
      and tournament_id = "''id_mine''"
      and n = 1 and first_reply = Timeout
      and second_reply = "Response 200 (Some (Body None (Some
           \<lparr>q_leaderboards = Some
              [\<lparr>leaderboardId = ''id_theirs'', lb_name = ''active_tournament'', lb_host = ''test_zz99zz'',
                lb_chainId = ''c1'', totalBoards = 0, totalPlayers = 0, shardIds = []\<rparr>,
               \<lparr>leaderboardId = ''id_mine'', lb_name = ''active_tournament'', lb_host = ''test_ab12cd'',
                lb_chainId = ''c2'', totalBoards = 0, totalPlayers = 0, shardIds = []\<rparr>],
             q_player = None, q_boards = None\<rparr>)))"
      and created = "[\<lparr>sc_name = ''future_tournament'', sc_start_time = 1700003600000000, sc_end_time = 1700007200000000,
           should_be_active = False, sc_host = ''test_ab12cd''\<rparr>,
         \<lparr>sc_name = ''active_tournament'', sc_start_time = 0, sc_end_time = 0,
           should_be_active = True, sc_host = ''test_ab12cd''\<rparr>]"
      and verdict = True
      and report = "[(''future_tournament'', False, False), (''active_tournament'', True, True)]"
      and leaderboard_id = "''id_mine''"
      and chain_reply = "Response 200 (Some (Body None (Some
           \<lparr>q_leaderboards = Some
              [\<lparr>leaderboardId = ''id_theirs'', lb_name = ''active_tournament'', lb_host = ''test_zz99zz'',
                lb_chainId = ''c1'', totalBoards = 0, totalPlayers = 0, shardIds = []\<rparr>,
               \<lparr>leaderboardId = ''id_mine'', lb_name = ''active_tournament'', lb_host = ''test_ab12cd'',
                lb_chainId = ''c2'', totalBoards = 0, totalPlayers = 0, shardIds = []\<rparr>],
             q_player = None, q_boards = None\<rparr>)))"
      and entry = "\<lparr>leaderboardId = ''id_mine'', lb_name = ''active_tournament'', lb_host = ''test_ab12cd'',
                lb_chainId = ''c2'', totalBoards = 0, totalPlayers = 0, shardIds = []\<rparr>"]
  show ?thesis by simp
qed

section \<open>Properties of the board creation\<close>

text \<open>
  In \<open>test_tournaments_fresh.py\<close> a board identifier comes from the boards query only:
  both requests were sent, and the reply to the second holds a board of this player in
  this tournament with that identifier.
\<close>

lemma create_board_confirmed:
  "fst (create_board tournament_id timestamp r boards_r t) = Inr (Some board_id) \<Longrightarrow>
     \<exists>es d boards b. make_graphql_request True boards_r = Inr (Some (Body es (Some d)))
        \<and> q_boards d = Some boards \<and> b \<in> set boards
        \<and> b_player b = username t \<and> b_leaderboardId b = tournament_id \<and> boardId b = board_id
        \<and> t_sent (snd (create_board tournament_id timestamp r boards_r t)) =
            t_sent t @ [NewBoard (player_url t) (username t) (password t) timestamp tournament_id,
                        BoardsQuery (player_url t)]"
  apply (simp add: create_board_def Let_def player_url_def
              split: if_splits sum.splits option.splits)
  apply (auto dest!: find_SomeD payload_SomeD)
  done

text \<open>
  C7. The claim holds for \<open>create_board\<close> of \<open>test_tournaments_fresh.py\<close> and fails for
  \<open>create_board\<close> of \<open>test_tournaments.py\<close>: there a reply to the mutation that carries
  data makes the function report the board as created, and the mutation is the only
  request it sends.
\<close>

theorem legacy_create_board_trusts_mutation:
  "legacy_create_board ''t1'' ''1000'' (Response 200 (Some (Body None (Some (Some ''ack'')))))
     ((new_tester ''chain'' ''app'' ''http://localhost:8088'' ''hello'')\<lparr>player_chain_id := Some ''pc''\<rparr>)
   = (True,
      (new_tester ''chain'' ''app'' ''http://localhost:8088'' ''hello'')
        \<lparr>player_chain_id := Some ''pc'',
         t_sent := [NewBoard ''http://localhost:8088/chains/pc/applications/app'' ''hello'' ''hello'' ''1000'' ''t1'']\<rparr>)"
  by (simp add: legacy_create_board_def legacy_make_graphql_request_def payload_def raises_for_status_def
        truthy_def player_url_def endpoint_def new_tester_def Let_def)

section \<open>Properties of the rejection test\<close>

lemma request_None_on_service_rejection: "service_rejection r \<Longrightarrow> make_graphql_request True r = Inr None"
  by (cases r rule: service_rejection.cases) (auto simp: make_graphql_request_def)

lemma request_None_on_transport_failure: "transport_failure r \<Longrightarrow> make_graphql_request True r = Inr None"
  by (cases r rule: transport_failure.cases) (auto simp: make_graphql_request_def)

text \<open>The only exception that leaves \<open>make_graphql_request\<close>, and so \<open>create_board\<close>.\<close>

lemma request_exn: "make_graphql_request s r = Inl e \<Longrightarrow> e = IndexError"
  by (auto simp: make_graphql_request_def split: reply.splits option.splits list.splits if_splits)

lemma create_board_exn: "fst (create_board tid ts r br t) = Inl e \<Longrightarrow> e = IndexError"
  by (auto simp: create_board_def Let_def split: if_splits sum.splits option.splits dest: request_exn)

lemma index_error_unrecognised: "expired_attempt (Inl IndexError) = ExpiredUnexpectedError"
  by (simp add: expired_attempt_def IndexError_def str_exn_def lower_def lower_char_def)

text \<open>
  C2 (as amended). In the attempt against the expired tournament, a rejection that the
  service reports and a failure of the transport (timeout, connection failure, HTTP error
  status) both make \<open>create_board\<close> return \<open>None\<close>, and the test reports both alike, as
  an unexpected \<open>None\<close>, not as a correct rejection. The test counts a correct rejection
  only for an exception whose lowercased message contains \<open>http error 500\<close> and
  \<open>runtime error\<close>, or \<open>expired\<close>, or \<open>not active\<close>, or \<open>not found in cache\<close>; no reply
  to \<open>create_board\<close> raises such an exception.
\<close>

theorem expired_attempt_classification:
  "(truthy (player_chain_id t) \<and> (service_rejection r \<or> transport_failure r) \<longrightarrow>
      fst (create_board tournament_id timestamp r boards_r t) = Inr None \<and>
      expired_attempt (fst (create_board tournament_id timestamp r boards_r t)) = ExpiredReturnedNone)
   \<and> expired_attempt (fst (create_board tournament_id timestamp r boards_r t)) \<noteq> ExpiredCorrectlyRejected
   \<and> (expired_attempt attempt = ExpiredCorrectlyRejected \<longleftrightarrow>
        (\<exists>e. attempt = Inl e \<and>
           ((contains ''http error 500'' (lower (str_exn e)) \<and> contains ''runtime error'' (lower (str_exn e)))
            \<or> contains ''expired'' (lower (str_exn e)) \<or> contains ''not active'' (lower (str_exn e))
            \<or> contains ''not found in cache'' (lower (str_exn e)))))"
proof (intro conjI impI)
  assume a: "truthy (player_chain_id t) \<and> (service_rejection r \<or> transport_failure r)"
  then have "make_graphql_request True r = Inr None"
    using request_None_on_service_rejection request_None_on_transport_failure by blast
  with a show none: "fst (create_board tournament_id timestamp r boards_r t) = Inr None"
    by (simp add: create_board_def Let_def payload_def)
  show "expired_attempt (fst (create_board tournament_id timestamp r boards_r t)) = ExpiredReturnedNone"
    unfolding none by (simp add: expired_attempt_def truthy_def)
next
  show "expired_attempt (fst (create_board tournament_id timestamp r boards_r t)) \<noteq> ExpiredCorrectlyRejected"
  proof (cases "fst (create_board tournament_id timestamp r boards_r t)")
    case (Inl e)
    then have "e = IndexError" by (rule create_board_exn)
    with Inl show ?thesis by (simp add: index_error_unrecognised)
  next
    case (Inr v)
    then show ?thesis by (simp add: expired_attempt_def)
  qed
next
  show "expired_attempt attempt = ExpiredCorrectlyRejected \<longleftrightarrow>
        (\<exists>e. attempt = Inl e \<and>
           ((contains ''http error 500'' (lower (str_exn e)) \<and> contains ''runtime error'' (lower (str_exn e)))
            \<or> contains ''expired'' (lower (str_exn e)) \<or> contains ''not active'' (lower (str_exn e))
            \<or> contains ''not found in cache'' (lower (str_exn e))))"
    by (cases attempt) (auto simp: expired_attempt_def Let_def)
qed

text \<open>
  Against C2 as stated: an explicit rejection by the service, a timeout and an HTTP 500
  all end in the same outcome of the attempt, and the rejection by the service is not
  counted as a correct rejection. With the expired tournament found and the active one
  not, \<open>test_board_creation_validation\<close> gives the same failed verdict for the rejection
  by the service as for the timeout.
\<close>

theorem rejection_and_transport_failure_conflated_counterexample:
  "service_rejection (Response 200 (Some (Body (Some [Some ''Tournament has expired'']) None)) :: string option reply)
   \<and> transport_failure (Timeout :: string option reply)
   \<and> transport_failure (Response 500 None :: string option reply)
   \<and> expired_attempt (fst (create_board ''past_id'' ''10000000'' (Response 200 (Some (Body (Some [Some ''Tournament has expired'']) None))) Timeout
        ((new_tester ''chain'' ''app'' ''http://localhost:8088'' ''ab12cd'')\<lparr>player_chain_id := Some ''pc''\<rparr>))) = ExpiredReturnedNone
   \<and> expired_attempt (fst (create_board ''past_id'' ''10000000'' Timeout Timeout
        ((new_tester ''chain'' ''app'' ''http://localhost:8088'' ''ab12cd'')\<lparr>player_chain_id := Some ''pc''\<rparr>))) = ExpiredReturnedNone
   \<and> expired_attempt (fst (create_board ''past_id'' ''10000000'' (Response 500 None) Timeout
        ((new_tester ''chain'' ''app'' ''http://localhost:8088'' ''ab12cd'')\<lparr>player_chain_id := Some ''pc''\<rparr>))) = ExpiredReturnedNone
   \<and> fst (test_board_creation_validation
        \<lparr>past_lookup = Response 200 (Some (Body None (Some
           \<lparr>q_leaderboards = Some
              [\<lparr>leaderboardId = ''past_id'', lb_name = ''past_tournament'', lb_host = ''test_ab12cd'',
                lb_chainId = ''c1'', totalBoards = 0, totalPlayers = 0, shardIds = []\<rparr>],
             q_player = None, q_boards = None\<rparr>))), active_lookup = Timeout,
         past_new_board = Response 200 (Some (Body (Some [Some ''Tournament has expired'']) None)), past_boards = Timeout,
         active_new_board = Timeout, active_boards = Timeout\<rparr>
        ((new_tester ''chain'' ''app'' ''http://localhost:8088'' ''ab12cd'')\<lparr>player_chain_id := Some ''pc''\<rparr>)) = Inr (False, Some ExpiredReturnedNone, None)
   \<and> fst (test_board_creation_validation
        \<lparr>past_lookup = Response 200 (Some (Body None (Some
           \<lparr>q_leaderboards = Some
              [\<lparr>leaderboardId = ''past_id'', lb_name = ''past_tournament'', lb_host = ''test_ab12cd'',
                lb_chainId = ''c1'', totalBoards = 0, totalPlayers = 0, shardIds = []\<rparr>],
             q_player = None, q_boards = None\<rparr>))), active_lookup = Timeout,
         past_new_board = Timeout, past_boards = Timeout,
         active_new_board = Timeout, active_boards = Timeout\<rparr>
        ((new_tester ''chain'' ''app'' ''http://localhost:8088'' ''ab12cd'')\<lparr>player_chain_id := Some ''pc''\<rparr>)) = Inr (False, Some ExpiredReturnedNone, None)"
  by (simp add: test_board_creation_validation_def get_tournament_id_by_name_def query_state_def
        my_tournaments_def create_board_def make_graphql_request_def payload_def raises_for_status_def
        expired_attempt_def truthy_def new_tester_def Let_def)

theorem expired_attempt_classification_witness:
  "fst (create_board ''past_id'' ''10000000'' (Response 200 (Some (Body (Some [Some ''Tournament has expired'']) None))) Timeout
        ((new_tester ''chain'' ''app'' ''http://localhost:8088'' ''ab12cd'')\<lparr>player_chain_id := Some ''pc''\<rparr>)) = Inr None
   \<and> expired_attempt (fst (create_board ''past_id'' ''10000000'' (Response 200 (Some (Body (Some [Some ''Tournament has expired'']) None))) Timeout
        ((new_tester ''chain'' ''app'' ''http://localhost:8088'' ''ab12cd'')\<lparr>player_chain_id := Some ''pc''\<rparr>))) = ExpiredReturnedNone
   \<and> expired_attempt (Inl (Raised ''HTTP Error 500: Runtime error'')) = ExpiredCorrectlyRejected"
proof -
  have h: "truthy (player_chain_id ((new_tester ''chain'' ''app'' ''http://localhost:8088'' ''ab12cd'')\<lparr>player_chain_id := Some ''pc''\<rparr>))
      \<and> (service_rejection (Response 200 (Some (Body (Some [Some ''Tournament has expired'']) None)) :: string option reply) \<or> transport_failure (Response 200 (Some (Body (Some [Some ''Tournament has expired'']) None)) :: string option reply))"
    by (simp add: truthy_def new_tester_def)
  have m: "contains ''http error 500'' (lower (str_exn (Raised ''HTTP Error 500: Runtime error'')))
      \<and> contains ''runtime error'' (lower (str_exn (Raised ''HTTP Error 500: Runtime error'')))"
    by (simp add: str_exn_def lower_def lower_char_def)
  from h m expired_attempt_classification[where t = "(new_tester ''chain'' ''app'' ''http://localhost:8088'' ''ab12cd'')\<lparr>player_chain_id := Some ''pc''\<rparr>"
      and r = "Response 200 (Some (Body (Some [Some ''Tournament has expired'']) None))" and tournament_id = "''past_id''" and timestamp = "''10000000''"
      and boards_r = Timeout and attempt = "Inl (Raised ''HTTP Error 500: Runtime error'')"]
  show ?thesis by blast
qed

section \<open>Properties of the scenario flags\<close>

text \<open>What the creation returns is the scenario list with the player as host.\<close>

lemma create_scenarios_loop_result:
  "fst (create_scenarios_loop scs net i created t) = Inr (Some res) \<Longrightarrow>
     res = created @ map (scenario_of (username t)) scs"
proof (induction scs arbitrary: i created t)
  case Nil
  then show ?case by simp
next
  case (Cons sc scs)
  obtain name s e a where sc: "sc = (name, s, e, a)" by (cases sc) auto
  let ?t1 = "t\<lparr>t_sent := t_sent t @ [creation_request t name s e]\<rparr>"
  let ?cr = "created @ [\<lparr>sc_name = name, sc_start_time = s, sc_end_time = e,
                             should_be_active = a, sc_host = username ?t1\<rparr>]"
  from Cons.prems have "fst (create_scenarios_loop scs net (Suc i) ?cr ?t1) = Inr (Some res)"
    by (auto simp: sc create_tournament_with_time_def split: sum.splits if_splits)
  from Cons.IH[OF this] show ?case
    by (simp add: sc scenario_of_def)
qed

text \<open>
  C3 (as amended). The flag \<open>should_be_active\<close> of each created scenario is a literal of
  the scenario list, fixed when \<open>create_multiple_test_tournaments\<close> builds it: it is not
  computed from the window and is not evaluated again at verification. Whenever the four
  scenarios are created their flags are False, False, True, True, and these agree with the
  activation policy at every time \<open>now\<close> from the creation clock up to less than one hour
  after it (for a creation clock later than 1800 seconds after the epoch).
\<close>

theorem scenario_flags_agree_with_policy_within_hour:
  "fst (create_multiple_test_tournaments current_time net t) = Inr (Some created) \<longrightarrow>
      map should_be_active created = [False, False, True, True]
      \<and> (1800000000 < current_time \<and> current_time \<le> now \<and> now < current_time + 3600000000 \<longrightarrow>
           list_all (\<lambda>sc. should_be_active sc = spec_active (sc_start_time sc) (sc_end_time sc) now) created)"
proof (intro impI)
  assume "fst (create_multiple_test_tournaments current_time net t) = Inr (Some created)"
  then have c: "created = map (scenario_of (username t)) (tournament_scenarios current_time)"
    using create_scenarios_loop_result[of "tournament_scenarios current_time" net 0 "[]" t created]
    by (simp add: create_multiple_test_tournaments_def)
  show "map should_be_active created = [False, False, True, True]
      \<and> (1800000000 < current_time \<and> current_time \<le> now \<and> now < current_time + 3600000000 \<longrightarrow>
           list_all (\<lambda>sc. should_be_active sc = spec_active (sc_start_time sc) (sc_end_time sc) now) created)"
    unfolding c by (auto simp: tournament_scenarios_def scenario_of_def spec_active_def)
qed

text \<open>
  Against C3 as stated: the scenarios are created at clock 1700000000000000; one hour
  later the policy makes the future tournament active, and the flag that the
  verification reads is still False.
\<close>

theorem scenario_flag_not_recomputed_counterexample:
  "map (\<lambda>sc. (sc_name sc, sc_start_time sc, sc_end_time sc, should_be_active sc))
     (case fst (create_multiple_test_tournaments 1700000000000000
             (\<lambda>i. Response 200 (Some (Body None (Some (Some ''a1b2'')))))
             (new_tester ''chain'' ''app'' ''http://localhost:8088'' ''ab12cd'')) of
        Inr (Some created) \<Rightarrow> created | _ \<Rightarrow> []) ! 1
     = (''future_tournament'', 1700003600000000, 1700007200000000, False)
   \<and> spec_active 1700003600000000 1700007200000000 (1700000000000000 + 3600000000)"
  by (simp add: create_multiple_test_tournaments_def tournament_scenarios_def
        create_tournament_with_time_def mutation_value_def make_graphql_request_def payload_def
        raises_for_status_def truthy_def new_tester_def spec_active_def)

theorem scenario_flags_agree_with_policy_within_hour_witness:
  "fst (create_multiple_test_tournaments 1700000000000000
         (\<lambda>i. Response 200 (Some (Body None (Some (Some ''a1b2'')))))
         (new_tester ''chain'' ''app'' ''http://localhost:8088'' ''ab12cd'')) =
     Inr (Some [\<lparr>sc_name = ''past_tournament'', sc_start_time = 1699996400000000, sc_end_time = 1699998200000000,
           should_be_active = False, sc_host = ''test_ab12cd''\<rparr>,
                \<lparr>sc_name = ''future_tournament'', sc_start_time = 1700003600000000, sc_end_time = 1700007200000000,
           should_be_active = False, sc_host = ''test_ab12cd''\<rparr>,
                \<lparr>sc_name = ''active_tournament'', sc_start_time = 0, sc_end_time = 0,
           should_be_active = True, sc_host = ''test_ab12cd''\<rparr>,
                \<lparr>sc_name = ''eternal_tournament'', sc_start_time = 0, sc_end_time = 0,
           should_be_active = True, sc_host = ''test_ab12cd''\<rparr>])
   \<and> list_all (\<lambda>sc. should_be_active sc = spec_active (sc_start_time sc) (sc_end_time sc) 1700000005000000)
          [\<lparr>sc_name = ''past_tournament'', sc_start_time = 1699996400000000, sc_end_time = 1699998200000000,
           should_be_active = False, sc_host = ''test_ab12cd''\<rparr>,
           \<lparr>sc_name = ''future_tournament'', sc_start_time = 1700003600000000, sc_end_time = 1700007200000000,
           should_be_active = False, sc_host = ''test_ab12cd''\<rparr>,
           \<lparr>sc_name = ''active_tournament'', sc_start_time = 0, sc_end_time = 0,
           should_be_active = True, sc_host = ''test_ab12cd''\<rparr>,
           \<lparr>sc_name = ''eternal_tournament'', sc_start_time = 0, sc_end_time = 0,
           should_be_active = True, sc_host = ''test_ab12cd''\<rparr>]"
proof -
  have e: "fst (create_multiple_test_tournaments 1700000000000000
         (\<lambda>i. Response 200 (Some (Body None (Some (Some ''a1b2'')))))
         (new_tester ''chain'' ''app'' ''http://localhost:8088'' ''ab12cd'')) =
     Inr (Some [\<lparr>sc_name = ''past_tournament'', sc_start_time = 1699996400000000, sc_end_time = 1699998200000000,
           should_be_active = False, sc_host = ''test_ab12cd''\<rparr>,
                \<lparr>sc_name = ''future_tournament'', sc_start_time = 1700003600000000, sc_end_time = 1700007200000000,
           should_be_active = False, sc_host = ''test_ab12cd''\<rparr>,
                \<lparr>sc_name = ''active_tournament'', sc_start_time = 0, sc_end_time = 0,
           should_be_active = True, sc_host = ''test_ab12cd''\<rparr>,
                \<lparr>sc_name = ''eternal_tournament'', sc_start_time = 0, sc_end_time = 0,
           should_be_active = True, sc_host = ''test_ab12cd''\<rparr>])"
    by (simp add: create_multiple_test_tournaments_def tournament_scenarios_def
          create_tournament_with_time_def mutation_value_def make_graphql_request_def payload_def
          raises_for_status_def truthy_def new_tester_def)
  from e scenario_flags_agree_with_policy_within_hour[where current_time = 1700000000000000
      and net = "\<lambda>i. Response 200 (Some (Body None (Some (Some ''a1b2''))))"
      and t = "new_tester ''chain'' ''app'' ''http://localhost:8088'' ''ab12cd''"
      and now = 1700000005000000
      and created = "[\<lparr>sc_name = ''past_tournament'', sc_start_time = 1699996400000000, sc_end_time = 1699998200000000,
           should_be_active = False, sc_host = ''test_ab12cd''\<rparr>,
                \<lparr>sc_name = ''future_tournament'', sc_start_time = 1700003600000000, sc_end_time = 1700007200000000,
           should_be_active = False, sc_host = ''test_ab12cd''\<rparr>,
                \<lparr>sc_name = ''active_tournament'', sc_start_time = 0, sc_end_time = 0,
           should_be_active = True, sc_host = ''test_ab12cd''\<rparr>,
                \<lparr>sc_name = ''eternal_tournament'', sc_start_time = 0, sc_end_time = 0,
           should_be_active = True, sc_host = ''test_ab12cd''\<rparr>]"]
  show ?thesis by simp
qed

section \<open>Properties of the board count check\<close>

text \<open>
  The loop of \<open>check_leaderboard_scores\<close> sends one query for each tournament, and when
  no exception ends it, it reports each tournament, in order, with the report of what
  the tournament's chain returned.
\<close>

lemma scores_loop_reports:
  "fst (scores_loop lbs net i reports t) = Inr out \<Longrightarrow>
     \<exists>ds. length ds = length lbs
        \<and> (\<forall>j<length lbs. chain_entry (leaderboardId (lbs ! j)) (net (i + j)) = Inr (ds ! j))
        \<and> out = reports @ map (\<lambda>(lb, details). (lb_name lb, score_report_of details)) (zip lbs ds)
        \<and> t_sent (snd (scores_loop lbs net i reports t)) =
            t_sent t @ map (\<lambda>lb. LeaderboardsQuery (endpoint (t_base_url t) (lb_chainId lb) (t_app_id t))) lbs"
proof (induction lbs arbitrary: i reports t)
  case Nil
  then show ?case by simp
next
  case (Cons lb lbs)
  from Cons.prems obtain details where d: "chain_entry (leaderboardId lb) (net i) = Inr details"
    by (auto simp: query_leaderboard_chain_def split: sum.splits)
  let ?t1 = "t\<lparr>t_sent := t_sent t @ [LeaderboardsQuery (endpoint (t_base_url t) (lb_chainId lb) (t_app_id t))]\<rparr>"
  let ?rp = "reports @ [(lb_name lb, score_report_of details)]"
  have step: "scores_loop (lb # lbs) net i reports t = scores_loop lbs net (Suc i) ?rp ?t1"
    using d by (simp add: query_leaderboard_chain_def)
  from Cons.prems step have "fst (scores_loop lbs net (Suc i) ?rp ?t1) = Inr out" by simp
  from Cons.IH[OF this] obtain ds where ds: "length ds = length lbs"
      "\<forall>j<length lbs. chain_entry (leaderboardId (lbs ! j)) (net (Suc i + j)) = Inr (ds ! j)"
      "out = ?rp @ map (\<lambda>(lb, details). (lb_name lb, score_report_of details)) (zip lbs ds)"
      "t_sent (snd (scores_loop lbs net (Suc i) ?rp ?t1)) =
         t_sent ?t1 @ map (\<lambda>lb. LeaderboardsQuery (endpoint (t_base_url ?t1) (lb_chainId lb) (t_app_id ?t1))) lbs"
    by blast
  have idx: "\<forall>j<length (lb # lbs). chain_entry (leaderboardId ((lb # lbs) ! j)) (net (i + j)) = Inr ((details # ds) ! j)"
  proof (intro allI impI)
    fix j assume "j < length (lb # lbs)"
    then show "chain_entry (leaderboardId ((lb # lbs) ! j)) (net (i + j)) = Inr ((details # ds) ! j)"
      using d ds(2) by (cases j) auto
  qed
  show ?case
    unfolding step using ds(1,3,4) idx
    by (intro exI[of _ "details # ds"]) simp
qed

lemma score_report_of_cases:
  "score_report_of details =
     (if \<exists>lb. details = Some lb \<and> 0 < totalBoards lb then StreamingSuccessful
      else if details = None then ChainQueryFailed else NoBoardsRegistered)"
  by (auto simp: score_report_of_def split: option.splits)

text \<open>
  C5 (as amended). \<open>check_leaderboard_scores\<close> asks the main chain for the leaderboards
  and then, for each tournament of this run's player in order, asks the tournament's
  chain once. These are all the requests it sends: no count from before the board
  creation is taken or compared. It reports a tournament as successful exactly when the
  entry that the tournament's chain returned has \<open>totalBoards\<close> greater than zero.
\<close>

theorem board_count_check_is_positive:
  "fst (check_leaderboard_scores r net t) = Inr out
   \<and> make_graphql_request True r = Inr (Some (Body es (Some d))) \<and> q_leaderboards d = Some lbs \<longrightarrow>
   (\<exists>ds. length ds = length (filter (\<lambda>lb. leaderboardId lb \<noteq> [] \<and> lb_host lb = username t) lbs)
      \<and> (\<forall>j<length ds.
            chain_entry (leaderboardId (filter (\<lambda>lb. leaderboardId lb \<noteq> [] \<and> lb_host lb = username t) lbs ! j)) (net j)
              = Inr (ds ! j))
      \<and> out = map (\<lambda>(lb, details).
                     (lb_name lb,
                      if \<exists>entry. details = Some entry \<and> 0 < totalBoards entry then StreamingSuccessful
                      else if details = None then ChainQueryFailed else NoBoardsRegistered))
                 (zip (filter (\<lambda>lb. leaderboardId lb \<noteq> [] \<and> lb_host lb = username t) lbs) ds)
      \<and> t_sent (snd (check_leaderboard_scores r net t)) =
          t_sent t @ LeaderboardsQuery (t_main_url t)
            # map (\<lambda>lb. LeaderboardsQuery (endpoint (t_base_url t) (lb_chainId lb) (t_app_id t)))
                  (filter (\<lambda>lb. leaderboardId lb \<noteq> [] \<and> lb_host lb = username t) lbs))"
proof
  assume a: "fst (check_leaderboard_scores r net t) = Inr out
   \<and> make_graphql_request True r = Inr (Some (Body es (Some d))) \<and> q_leaderboards d = Some lbs"
  let ?mine = "filter (\<lambda>lb. leaderboardId lb \<noteq> [] \<and> lb_host lb = username t) lbs"
  let ?t1 = "t\<lparr>t_sent := t_sent t @ [LeaderboardsQuery (t_main_url t)]\<rparr>"
  have eq: "check_leaderboard_scores r net t = scores_loop ?mine net 0 [] ?t1"
    using a by (simp add: check_leaderboard_scores_def Let_def payload_def)
  with a have "fst (scores_loop ?mine net 0 [] ?t1) = Inr out" by simp
  from scores_loop_reports[OF this] obtain ds where ds: "length ds = length ?mine"
      "\<forall>j<length ?mine. chain_entry (leaderboardId (?mine ! j)) (net (0 + j)) = Inr (ds ! j)"
      "out = [] @ map (\<lambda>(lb, details). (lb_name lb, score_report_of details)) (zip ?mine ds)"
      "t_sent (snd (scores_loop ?mine net 0 [] ?t1)) =
         t_sent ?t1 @ map (\<lambda>lb. LeaderboardsQuery (endpoint (t_base_url ?t1) (lb_chainId lb) (t_app_id ?t1))) ?mine"
    by blast
  show "\<exists>ds. length ds = length ?mine
      \<and> (\<forall>j<length ds. chain_entry (leaderboardId (?mine ! j)) (net j) = Inr (ds ! j))
      \<and> out = map (\<lambda>(lb, details).
                     (lb_name lb,
                      if \<exists>entry. details = Some entry \<and> 0 < totalBoards entry then StreamingSuccessful
                      else if details = None then ChainQueryFailed else NoBoardsRegistered))
                 (zip ?mine ds)
      \<and> t_sent (snd (check_leaderboard_scores r net t)) =
          t_sent t @ LeaderboardsQuery (t_main_url t)
            # map (\<lambda>lb. LeaderboardsQuery (endpoint (t_base_url t) (lb_chainId lb) (t_app_id t))) ?mine"
    unfolding eq using ds
    by (intro exI[of _ ds]) (simp add: score_report_of_cases[symmetric])
qed

text \<open>
  Against C5 as stated: take a tournament whose leaderboard chain counted three boards
  before the board creation. The check reports success when the chain still returns
  three afterwards, which is no increase, and when it returns seven, which is an
  increase by four.
\<close>

theorem board_count_check_has_no_baseline_counterexample:
  "fst (check_leaderboard_scores
         (Response 200 (Some (Body None (Some
            \<lparr>q_leaderboards = Some [\<lparr>leaderboardId = ''id_mine'', lb_name = ''active_tournament'', lb_host = ''test_ab12cd'',
                lb_chainId = ''c2'', totalBoards = 3, totalPlayers = 1, shardIds = []\<rparr>], q_player = None, q_boards = None\<rparr>))))
         (\<lambda>i. Response 200 (Some (Body None (Some
            \<lparr>q_leaderboards = Some [\<lparr>leaderboardId = ''id_mine'', lb_name = ''active_tournament'', lb_host = ''test_ab12cd'',
                lb_chainId = ''c2'', totalBoards = 3, totalPlayers = 1, shardIds = []\<rparr>], q_player = None, q_boards = None\<rparr>))))
         (new_tester ''chain'' ''app'' ''http://localhost:8088'' ''ab12cd''))
     = Inr [(''active_tournament'', StreamingSuccessful)]
   \<and> fst (check_leaderboard_scores
         (Response 200 (Some (Body None (Some
            \<lparr>q_leaderboards = Some [\<lparr>leaderboardId = ''id_mine'', lb_name = ''active_tournament'', lb_host = ''test_ab12cd'',
                lb_chainId = ''c2'', totalBoards = 3, totalPlayers = 1, shardIds = []\<rparr>], q_player = None, q_boards = None\<rparr>))))
         (\<lambda>i. Response 200 (Some (Body None (Some
            \<lparr>q_leaderboards = Some [\<lparr>leaderboardId = ''id_mine'', lb_name = ''active_tournament'', lb_host = ''test_ab12cd'',
                lb_chainId = ''c2'', totalBoards = 7, totalPlayers = 1, shardIds = []\<rparr>], q_player = None, q_boards = None\<rparr>))))
         (new_tester ''chain'' ''app'' ''http://localhost:8088'' ''ab12cd''))
     = Inr [(''active_tournament'', StreamingSuccessful)]
   \<and> (3::int) \<noteq> 3 + 1 \<and> (7::int) \<noteq> 3 + 1"
  by (simp add: check_leaderboard_scores_def query_leaderboard_chain_def chain_entry_def
        make_graphql_request_def payload_def raises_for_status_def score_report_of_def
        new_tester_def Let_def)

text \<open>
  The player's tournament is listed on the main chain, its leaderboard chain reports two
  boards, and the check reports success after two queries.
\<close>

theorem board_count_check_is_positive_witness:
  "fst (check_leaderboard_scores
         (Response 200 (Some (Body None (Some
            \<lparr>q_leaderboards = Some [\<lparr>leaderboardId = ''id_mine'', lb_name = ''active_tournament'', lb_host = ''test_ab12cd'',
                lb_chainId = ''c2'', totalBoards = 0, totalPlayers = 1, shardIds = []\<rparr>], q_player = None, q_boards = None\<rparr>))))
         (\<lambda>i. Response 200 (Some (Body None (Some
            \<lparr>q_leaderboards = Some [\<lparr>leaderboardId = ''id_mine'', lb_name = ''active_tournament'', lb_host = ''test_ab12cd'',
                lb_chainId = ''c2'', totalBoards = 2, totalPlayers = 1, shardIds = []\<rparr>], q_player = None, q_boards = None\<rparr>))))
         (new_tester ''chain'' ''app'' ''http://localhost:8088'' ''ab12cd''))
     = Inr [(''active_tournament'', StreamingSuccessful)]
   \<and> t_sent (snd (check_leaderboard_scores
         (Response 200 (Some (Body None (Some
            \<lparr>q_leaderboards = Some [\<lparr>leaderboardId = ''id_mine'', lb_name = ''active_tournament'', lb_host = ''test_ab12cd'',
                lb_chainId = ''c2'', totalBoards = 0, totalPlayers = 1, shardIds = []\<rparr>], q_player = None, q_boards = None\<rparr>))))
         (\<lambda>i. Response 200 (Some (Body None (Some
            \<lparr>q_leaderboards = Some [\<lparr>leaderboardId = ''id_mine'', lb_name = ''active_tournament'', lb_host = ''test_ab12cd'',
                lb_chainId = ''c2'', totalBoards = 2, totalPlayers = 1, shardIds = []\<rparr>], q_player = None, q_boards = None\<rparr>))))
         (new_tester ''chain'' ''app'' ''http://localhost:8088'' ''ab12cd'')))
     = [LeaderboardsQuery ''http://localhost:8088/chains/chain/applications/app'',
        LeaderboardsQuery ''http://localhost:8088/chains/c2/applications/app'']"
proof -
  let ?r = "Response 200 (Some (Body None (Some
            \<lparr>q_leaderboards = Some [\<lparr>leaderboardId = ''id_mine'', lb_name = ''active_tournament'', lb_host = ''test_ab12cd'',
                lb_chainId = ''c2'', totalBoards = 0, totalPlayers = 1, shardIds = []\<rparr>], q_player = None, q_boards = None\<rparr>)))"
  let ?net = "\<lambda>i::nat. Response 200 (Some (Body None (Some
            \<lparr>q_leaderboards = Some [\<lparr>leaderboardId = ''id_mine'', lb_name = ''active_tournament'', lb_host = ''test_ab12cd'',
                lb_chainId = ''c2'', totalBoards = 2, totalPlayers = 1, shardIds = []\<rparr>], q_player = None, q_boards = None\<rparr>)))"
  let ?t = "new_tester ''chain'' ''app'' ''http://localhost:8088'' ''ab12cd''"
  have e: "fst (check_leaderboard_scores ?r ?net ?t) = Inr [(''active_tournament'', StreamingSuccessful)]"
    by (simp add: check_leaderboard_scores_def query_leaderboard_chain_def chain_entry_def
          make_graphql_request_def payload_def raises_for_status_def score_report_of_def
          new_tester_def Let_def)
  have m: "make_graphql_request True ?r = Inr (Some (Body None (Some
            \<lparr>q_leaderboards = Some [\<lparr>leaderboardId = ''id_mine'', lb_name = ''active_tournament'', lb_host = ''test_ab12cd'',
                lb_chainId = ''c2'', totalBoards = 0, totalPlayers = 1, shardIds = []\<rparr>], q_player = None, q_boards = None\<rparr>)))"
    by (simp add: make_graphql_request_def raises_for_status_def)
  from e m board_count_check_is_positive[of ?r ?net ?t "[(''active_tournament'', StreamingSuccessful)]"
      None "\<lparr>q_leaderboards = Some [\<lparr>leaderboardId = ''id_mine'', lb_name = ''active_tournament'', lb_host = ''test_ab12cd'',
                lb_chainId = ''c2'', totalBoards = 0, totalPlayers = 1, shardIds = []\<rparr>], q_player = None, q_boards = None\<rparr>" "[\<lparr>leaderboardId = ''id_mine'', lb_name = ''active_tournament'', lb_host = ''test_ab12cd'',
                lb_chainId = ''c2'', totalBoards = 0, totalPlayers = 1, shardIds = []\<rparr>]"]
  have "t_sent (snd (check_leaderboard_scores ?r ?net ?t)) =
          t_sent ?t @ LeaderboardsQuery (t_main_url ?t)
            # map (\<lambda>lb. LeaderboardsQuery (endpoint (t_base_url ?t) (lb_chainId lb) (t_app_id ?t)))
                  (filter (\<lambda>lb. leaderboardId lb \<noteq> [] \<and> lb_host lb = username ?t) [\<lparr>leaderboardId = ''id_mine'', lb_name = ''active_tournament'', lb_host = ''test_ab12cd'',
                lb_chainId = ''c2'', totalBoards = 0, totalPlayers = 1, shardIds = []\<rparr>])"
    by auto
  then have s: "t_sent (snd (check_leaderboard_scores ?r ?net ?t)) =
     [LeaderboardsQuery ''http://localhost:8088/chains/chain/applications/app'',
      LeaderboardsQuery ''http://localhost:8088/chains/c2/applications/app'']"
    by (simp add: new_tester_def endpoint_def)
  from e s show ?thesis by simp
qed

section \<open>Properties of the move submission\<close>





section \<open>Properties of the convergence poller\<close>







end
